theory Spec2Isabelle
  imports Main
begin

section \<open>The membership relations\<close>

text \<open>
  Modelled from the spec: the table schemas (\<open>@app/db/schemas\<close>) are not among the
  sources. Each table is a list of rows with the columns that the data model of the
  specification lists and that the queries of \<open>user-group-membership-dal.ts\<close> name.
  Identifiers are strings, as the TypeScript signatures say; every column is NOT NULL
  but \<open>publicKey\<close>, which reaches a result only through a left join.
\<close>

record Users_row =
  U_id :: string
  U_username :: string
  U_email :: string
  U_firstName :: string
  U_lastName :: string
  U_isGhost :: bool

record Groups_row =
  G_id :: string
  G_orgId :: string
  G_name :: string
  G_slug :: string
  G_role :: string
  G_roleId :: string

record UserGroupMembership_row =
  UGM_id :: string
  UGM_userId :: string
  UGM_groupId :: string
  UGM_isPending :: bool

record ProjectMembership_row =
  PM_userId :: string
  PM_projectId :: string

record GroupProjectMembership_row =
  GPM_groupId :: string
  GPM_projectId :: string

record UserEncryptionKey_row =
  UEK_userId :: string
  UEK_publicKey :: string

text \<open>
  A Knex handle (the client \<open>db\<close>, or a transaction \<open>tx\<close>) is the contents of the
  tables as that handle sees them.
\<close>

record Knex =
  Users :: "Users_row list"
  Groups :: "Groups_row list"
  UserGroupMembership :: "UserGroupMembership_row list"
  ProjectMembership :: "ProjectMembership_row list"
  GroupProjectMembership :: "GroupProjectMembership_row list"
  UserEncryptionKey :: "UserEncryptionKey_row list"

text \<open>\<open>(tx || db)\<close>: the transaction when the caller passed one, the client otherwise.\<close>

definition handle :: "Knex option \<Rightarrow> Knex \<Rightarrow> Knex" where
  "handle tx db = (case tx of Some t \<Rightarrow> t | None \<Rightarrow> db)"

section \<open>The query builder\<close>

text \<open>
  The clauses of the Knex builder, read as the SQL they compile to: the joins build the
  row set, the \<open>where\<close> clauses filter it, \<open>pluck\<close> projects one column. Rows come in
  table order; SQL promises no order, and no statement below depends on it.
  \<open>whereIn\<close> with an empty list keeps no row (Knex compiles it to \<open>1 = 0\<close>).
\<close>

definition where_eq :: "('r \<Rightarrow> 'a) \<Rightarrow> 'a \<Rightarrow> 'r list \<Rightarrow> 'r list" where
  "where_eq col v rows = filter (\<lambda>r. col r = v) rows"

definition whereNot :: "('r \<Rightarrow> 'a) \<Rightarrow> 'a \<Rightarrow> 'r list \<Rightarrow> 'r list" where
  "whereNot col v rows = filter (\<lambda>r. \<not> col r = v) rows"

definition whereIn :: "('r \<Rightarrow> 'a) \<Rightarrow> 'a list \<Rightarrow> 'r list \<Rightarrow> 'r list" where
  "whereIn col vals rows = filter (\<lambda>r. col r \<in> set vals) rows"

definition whereNotIn :: "('r \<Rightarrow> 'a) \<Rightarrow> 'a list \<Rightarrow> 'r list \<Rightarrow> 'r list" where
  "whereNotIn col vals rows = filter (\<lambda>r. col r \<notin> set vals) rows"

definition whereNull :: "('r \<Rightarrow> 'a option) \<Rightarrow> 'r list \<Rightarrow> 'r list" where
  "whereNull col rows = filter (\<lambda>r. col r = None) rows"

definition pluck :: "('r \<Rightarrow> 'a) \<Rightarrow> 'r list \<Rightarrow> 'a list" where
  "pluck col rows = map col rows"

definition join :: "'r list \<Rightarrow> 's list \<Rightarrow> ('r \<Rightarrow> 's \<Rightarrow> bool) \<Rightarrow> ('r \<times> 's) list" where
  "join rows tbl cond = concat (map (\<lambda>r. map (Pair r) (filter (cond r) tbl)) rows)"

text \<open>A left join keeps a row that matches nothing, once, with the right side NULL.\<close>

definition leftJoin ::
  "'r list \<Rightarrow> 's list \<Rightarrow> ('r \<Rightarrow> 's \<Rightarrow> bool) \<Rightarrow> ('r \<times> 's option) list" where
  "leftJoin rows tbl cond =
     concat (map (\<lambda>r. case filter (cond r) tbl of
                         [] \<Rightarrow> [(r, None)]
                       | s # ss \<Rightarrow> map (\<lambda>m. (r, Some m)) (s # ss)) rows)"

section \<open>Storage faults and the error of the module\<close>

text \<open>
  Every \<open>await\<close> of a statement either yields the statement's rows or throws the
  storage layer's fault. Which statements fail is the environment's choice: a fault
  plan gives, for the n-th statement an operation issues (counted from 0), the cause
  it throws, or nothing when it runs.
\<close>

type_synonym 'c faults = "nat \<Rightarrow> 'c option"

definition await :: "'c faults \<Rightarrow> nat \<Rightarrow> 'a \<Rightarrow> 'c + 'a" where
  "await flt n rows = (case flt n of Some c \<Rightarrow> Inl c | None \<Rightarrow> Inr rows)"

text \<open>\<open>new DatabaseError({ error, name })\<close>: the caught cause and the label.\<close>

datatype 'c DatabaseError = DatabaseError (error: 'c) (name: string)

text \<open>Sequencing inside a \<open>try\<close> block: the first throw leaves the block.\<close>

definition and_then :: "'c + 'a \<Rightarrow> ('a \<Rightarrow> 'c + 'b) \<Rightarrow> 'c + 'b" where
  "and_then r k = (case r of Inl c \<Rightarrow> Inl c | Inr v \<Rightarrow> k v)"

text \<open>\<open>try { ... } catch (error) { throw new DatabaseError({ error, name }) }\<close>\<close>

definition try_catch :: "string \<Rightarrow> 'c + 'a \<Rightarrow> 'c DatabaseError + 'a" where
  "try_catch label body =
     (case body of Inl c \<Rightarrow> Inl (DatabaseError c label) | Inr v \<Rightarrow> Inr v)"

section \<open>JavaScript's Set\<close>

text \<open>
  \<open>new Set(array)\<close> adds the elements in turn; an element already present is not added
  again. The set is the list of its elements in insertion order.
\<close>

definition Set_add :: "'a list \<Rightarrow> 'a \<Rightarrow> 'a list" where
  "Set_add s x = (if x \<in> set s then s else s @ [x])"

definition new_Set :: "'a list \<Rightarrow> 'a list" where
  "new_Set xs = foldl Set_add [] xs"

section \<open>The operations of userGroupMembershipDALFactory\<close>

subsection \<open>filterProjectsByUserMembership\<close>

definition filterProjectsByUserMembership ::
  "'c faults \<Rightarrow> Knex \<Rightarrow> string \<Rightarrow> string \<Rightarrow> string list \<Rightarrow> Knex option
     \<Rightarrow> 'c DatabaseError + string list" where
  "filterProjectsByUserMembership flt db userId groupId projectIds tx =
     try_catch ''Filter projects by user membership''
       (and_then
          (await flt 0
             (pluck PM_projectId
                (whereIn PM_projectId projectIds
                   (where_eq PM_userId userId (ProjectMembership (handle tx db))))))
          (\<lambda>userProjectMemberships.
       and_then
          (await flt 1
             (pluck (GPM_projectId \<circ> snd)
                (whereIn (GPM_projectId \<circ> snd) projectIds
                   (whereNot (UGM_groupId \<circ> fst) groupId
                      (where_eq (UGM_userId \<circ> fst) userId
                         (join (UserGroupMembership (handle tx db))
                               (GroupProjectMembership (handle tx db))
                               (\<lambda>m g. UGM_groupId m = GPM_groupId g)))))))
          (\<lambda>userGroupMemberships.
       Inr (new_Set (userProjectMemberships @ userGroupMemberships)))))"

subsection \<open>findUserGroupMembershipsInProject\<close>

text \<open>The "special query": it takes no transaction and always runs on \<open>db\<close>.\<close>

definition findUserGroupMembershipsInProject ::
  "'c faults \<Rightarrow> Knex \<Rightarrow> string list \<Rightarrow> string \<Rightarrow> 'c DatabaseError + string list" where
  "findUserGroupMembershipsInProject flt db usernames projectId =
     try_catch ''Find user group members in project''
       (and_then
          (await flt 0
             (pluck (U_id \<circ> snd)
                (whereIn (U_username \<circ> snd) usernames
                   (where_eq (GPM_projectId \<circ> snd \<circ> fst) projectId
                      (join
                         (join (UserGroupMembership db) (GroupProjectMembership db)
                            (\<lambda>m g. UGM_groupId m = GPM_groupId g))
                         (Users db)
                         (\<lambda>mg u. UGM_userId (fst mg) = U_id u))))))
          (\<lambda>usernameDocs. Inr usernameDocs))"

subsection \<open>findGroupMembersNotInProject\<close>

text \<open>The columns of the main query's \<open>select\<close>, and the records the \<open>map\<close> builds.\<close>

record selected_member =
  sel_id :: string
  sel_groupId :: string
  sel_email :: string
  sel_username :: string
  sel_firstName :: string
  sel_lastName :: string
  sel_userId :: string
  sel_publicKey :: "string option"

record member_user =
  user_email :: string
  user_username :: string
  user_firstName :: string
  user_lastName :: string
  user_id :: string
  user_publicKey :: "string option"

record group_member =
  member_id :: string
  member_groupId :: string
  member_user :: member_user

text \<open>
  The first statement lists the other groups of the project. The second is one SQL
  statement: \<open>UserGroupMembership\<close> joined to \<open>Users\<close>, left-joined to the project's
  \<open>ProjectMembership\<close> rows of the user and to the user's encryption keys, filtered by
  the five \<open>where\<close> clauses, the last a \<open>NOT IN\<close> over a sub-select on the same handle.
  \<open>ProjectMembership.userId\<close> is NULL exactly on the rows the left join padded.
\<close>

definition findGroupMembersNotInProject ::
  "'c faults \<Rightarrow> Knex \<Rightarrow> string \<Rightarrow> string \<Rightarrow> Knex option
     \<Rightarrow> 'c DatabaseError + group_member list" where
  "findGroupMembersNotInProject flt db groupId projectId tx =
     try_catch ''Find group members not in project''
       (and_then
          (await flt 0
             (pluck GPM_groupId
                (whereNot GPM_groupId groupId
                   (where_eq GPM_projectId projectId
                      (GroupProjectMembership (handle tx db))))))
          (\<lambda>groups.
       and_then
          (await flt 1
             (map (\<lambda>r. \<lparr> sel_id = UGM_id (fst (fst (fst r))),
                         sel_groupId = UGM_groupId (fst (fst (fst r))),
                         sel_email = U_email (snd (fst (fst r))),
                         sel_username = U_username (snd (fst (fst r))),
                         sel_firstName = U_firstName (snd (fst (fst r))),
                         sel_lastName = U_lastName (snd (fst (fst r))),
                         sel_userId = U_id (snd (fst (fst r))),
                         sel_publicKey = map_option UEK_publicKey (snd r) \<rparr>)
                (whereNotIn (UGM_userId \<circ> fst \<circ> fst \<circ> fst)
                   (pluck UGM_userId
                      (whereIn UGM_groupId groups (UserGroupMembership (handle tx db))))
                   (where_eq (U_isGhost \<circ> snd \<circ> fst \<circ> fst) False
                      (whereNull (map_option PM_userId \<circ> snd \<circ> fst)
                         (where_eq (UGM_isPending \<circ> fst \<circ> fst \<circ> fst) False
                            (where_eq (UGM_groupId \<circ> fst \<circ> fst \<circ> fst) groupId
                               (leftJoin
                                  (leftJoin
                                     (join (UserGroupMembership (handle tx db))
                                        (Users (handle tx db))
                                        (\<lambda>m u. UGM_userId m = U_id u))
                                     (ProjectMembership (handle tx db))
                                     (\<lambda>mu p. U_id (snd mu) = PM_userId p
                                              \<and> PM_projectId p = projectId))
                                  (UserEncryptionKey (handle tx db))
                                  (\<lambda>mup k. UEK_userId k = U_id (snd (fst mup)))))))))))
          (\<lambda>members.
       Inr (map (\<lambda>s. \<lparr> member_id = sel_id s,
                        member_groupId = sel_groupId s,
                        member_user = \<lparr> user_email = sel_email s,
                                        user_username = sel_username s,
                                        user_firstName = sel_firstName s,
                                        user_lastName = sel_lastName s,
                                        user_id = sel_userId s,
                                        user_publicKey = sel_publicKey s \<rparr> \<rparr>)
              members))))"

subsection \<open>deletePendingUserGroupMembershipsByUserIds\<close>

record removed_user =
  ruser_id :: string
  ruser_username :: string

record removed_group =
  rgroup_id :: string
  rgroup_orgId :: string
  rgroup_name :: string
  rgroup_slug :: string
  rgroup_role :: string
  rgroup_roleId :: string
  rgroup_createdAt :: nat
  rgroup_updatedAt :: nat

record removed_membership =
  removed_user :: removed_user
  removed_group :: removed_group

text \<open>
  Modelled from the spec: \<open>ormify\<close> (\<open>@app/lib/knex\<close>) is not among the sources. Its
  \<open>delete\<close>, called with the filter \<open>{ $in: { userId: userIds } }\<close> and the transaction,
  is step 2 of DeletePendingMembershipsByUserIds: "delete all UserGroupMembership rows
  matching userId in userIds", on the handle the read used; every other table is left
  as it is.
\<close>

definition userGroupMembershipOrm_delete :: "string list \<Rightarrow> Knex \<Rightarrow> Knex" where
  "userGroupMembershipOrm_delete userIds h =
     h\<lparr>UserGroupMembership := whereNotIn UGM_userId userIds (UserGroupMembership h)\<rparr>"

text \<open>
  The operation returns the report together with the contents of the handle after the
  delete. \<open>new Date()\<close> reads the clock: \<open>Date n\<close> is the n-th reading, two per reported
  row, \<open>createdAt\<close> first. A statement that throws changes nothing, and the operation
  then returns no state.
\<close>

definition deletePendingUserGroupMembershipsByUserIds ::
  "'c faults \<Rightarrow> (nat \<Rightarrow> nat) \<Rightarrow> Knex \<Rightarrow> string list \<Rightarrow> Knex option
     \<Rightarrow> 'c DatabaseError + (removed_membership list \<times> Knex)" where
  "deletePendingUserGroupMembershipsByUserIds flt Date db userIds tx =
     try_catch ''Delete pending user group memberships by user ids''
       (and_then
          (await flt 0
             (where_eq (UGM_isPending \<circ> fst \<circ> fst) True
                (whereIn (UGM_userId \<circ> fst \<circ> fst) userIds
                   (join
                      (join (UserGroupMembership (handle tx db)) (Groups (handle tx db))
                         (\<lambda>m g. UGM_groupId m = G_id g))
                      (Users (handle tx db))
                      (\<lambda>mg u. UGM_userId (fst mg) = U_id u)))))
          (\<lambda>members.
       and_then
          (await flt 1 (userGroupMembershipOrm_delete userIds (handle tx db)))
          (\<lambda>deleted.
       Inr (map (\<lambda>ir. \<lparr> removed_user =
                           \<lparr> ruser_id = UGM_userId (fst (fst (snd ir))),
                             ruser_username = U_username (snd (snd ir)) \<rparr>,
                         removed_group =
                           \<lparr> rgroup_id = UGM_groupId (fst (fst (snd ir))),
                             rgroup_orgId = G_orgId (snd (fst (snd ir))),
                             rgroup_name = G_name (snd (fst (snd ir))),
                             rgroup_slug = G_slug (snd (fst (snd ir))),
                             rgroup_role = G_role (snd (fst (snd ir))),
                             rgroup_roleId = G_roleId (snd (fst (snd ir))),
                             rgroup_createdAt = Date (2 * fst ir),
                             rgroup_updatedAt = Date (2 * fst ir + 1) \<rparr> \<rparr>)
              (enumerate 0 members),
            deleted))))"

text \<open>The record that the \<open>map\<close> of findGroupMembersNotInProject builds from one row.\<close>

definition mk_member :: "UserGroupMembership_row \<Rightarrow> Users_row \<Rightarrow> string option \<Rightarrow> group_member" where
  "mk_member m u k =
     \<lparr> member_id = UGM_id m, member_groupId = UGM_groupId m,
       member_user = \<lparr> user_email = U_email u, user_username = U_username u,
                       user_firstName = U_firstName u, user_lastName = U_lastName u,
                       user_id = U_id u, user_publicKey = k \<rparr> \<rparr>"

section \<open>A concrete store\<close>

text \<open>
  The scenario of the specification, extended: alice (u1) is a direct member of p1 and
  a pending member of g1; bob (u2) is an accepted member of g1 and a pending member of
  g2; u3 is a ghost user accepted in g1; carol (u4) is an accepted member of g1 only;
  dave (u5) is an accepted member of g1 and of g2. Group g1 is granted p1 and p2,
  group g2 is granted p2.
\<close>

definition demo_db :: Knex where
  "demo_db =
     \<lparr> Users =
         [\<lparr>U_id = ''u1'', U_username = ''alice'', U_email = ''a@x'', U_firstName = ''A'',
           U_lastName = ''L'', U_isGhost = False\<rparr>,
          \<lparr>U_id = ''u2'', U_username = ''bob'', U_email = ''b@x'', U_firstName = ''B'',
           U_lastName = ''L'', U_isGhost = False\<rparr>,
          \<lparr>U_id = ''u3'', U_username = ''ghost'', U_email = ''g@x'', U_firstName = ''G'',
           U_lastName = ''L'', U_isGhost = True\<rparr>,
          \<lparr>U_id = ''u4'', U_username = ''carol'', U_email = ''c@x'', U_firstName = ''C'',
           U_lastName = ''L'', U_isGhost = False\<rparr>,
          \<lparr>U_id = ''u5'', U_username = ''dave'', U_email = ''d@x'', U_firstName = ''D'',
           U_lastName = ''L'', U_isGhost = False\<rparr>],
       Groups =
         [\<lparr>G_id = ''g1'', G_orgId = ''o1'', G_name = ''Devs'', G_slug = ''devs'',
           G_role = ''member'', G_roleId = ''r1''\<rparr>,
          \<lparr>G_id = ''g2'', G_orgId = ''o1'', G_name = ''Ops'', G_slug = ''ops'',
           G_role = ''admin'', G_roleId = ''r2''\<rparr>],
       UserGroupMembership =
         [\<lparr>UGM_id = ''m1'', UGM_userId = ''u1'', UGM_groupId = ''g1'', UGM_isPending = True\<rparr>,
          \<lparr>UGM_id = ''m2'', UGM_userId = ''u2'', UGM_groupId = ''g1'', UGM_isPending = False\<rparr>,
          \<lparr>UGM_id = ''m3'', UGM_userId = ''u2'', UGM_groupId = ''g2'', UGM_isPending = True\<rparr>,
          \<lparr>UGM_id = ''m4'', UGM_userId = ''u3'', UGM_groupId = ''g1'', UGM_isPending = False\<rparr>,
          \<lparr>UGM_id = ''m5'', UGM_userId = ''u4'', UGM_groupId = ''g1'', UGM_isPending = False\<rparr>,
          \<lparr>UGM_id = ''m6'', UGM_userId = ''u5'', UGM_groupId = ''g1'', UGM_isPending = False\<rparr>,
          \<lparr>UGM_id = ''m7'', UGM_userId = ''u5'', UGM_groupId = ''g2'', UGM_isPending = False\<rparr>],
       ProjectMembership =
         [\<lparr>PM_userId = ''u1'', PM_projectId = ''p1''\<rparr>],
       GroupProjectMembership =
         [\<lparr>GPM_groupId = ''g1'', GPM_projectId = ''p1''\<rparr>,
          \<lparr>GPM_groupId = ''g1'', GPM_projectId = ''p2''\<rparr>,
          \<lparr>GPM_groupId = ''g2'', GPM_projectId = ''p2''\<rparr>],
       UserEncryptionKey =
         [\<lparr>UEK_userId = ''u4'', UEK_publicKey = ''pk4''\<rparr>] \<rparr>"

text \<open>The fault plan under which every statement runs.\<close>

definition no_fault :: "string faults" where
  "no_fault = (\<lambda>n. None)"

section \<open>Facts about the query builder and the Set\<close>

lemma set_foldl_Set_add: "set (foldl Set_add s xs) = set s \<union> set xs"
  by (induction xs arbitrary: s) (auto simp: Set_add_def)

lemma distinct_foldl_Set_add: "distinct s \<Longrightarrow> distinct (foldl Set_add s xs)"
  by (induction xs arbitrary: s) (auto simp: Set_add_def)

lemma set_new_Set: "set (new_Set xs) = set xs"
  by (simp add: new_Set_def set_foldl_Set_add)

lemma distinct_new_Set: "distinct (new_Set xs)"
  by (simp add: new_Set_def distinct_foldl_Set_add)

lemma set_join:
  "set (join rows tbl cond) = {(r, s). r \<in> set rows \<and> s \<in> set tbl \<and> cond r s}"
  by (auto simp: join_def)

lemma set_where_eq: "set (where_eq col v rows) = {r \<in> set rows. col r = v}"
  by (auto simp: where_eq_def)

lemma set_whereNot: "set (whereNot col v rows) = {r \<in> set rows. col r \<noteq> v}"
  by (auto simp: whereNot_def)

lemma set_whereIn: "set (whereIn col vals rows) = {r \<in> set rows. col r \<in> set vals}"
  by (auto simp: whereIn_def)

lemma set_whereNotIn: "set (whereNotIn col vals rows) = {r \<in> set rows. col r \<notin> set vals}"
  by (auto simp: whereNotIn_def)

lemma set_whereNull: "set (whereNull col rows) = {r \<in> set rows. col r = None}"
  by (auto simp: whereNull_def)

lemma set_pluck: "set (pluck col rows) = col ` set rows"
  by (simp add: pluck_def)

lemma set_leftJoin_row:
  "set (case filter P tbl of [] \<Rightarrow> [(r, None)] | s # ss \<Rightarrow> map (\<lambda>m. (r, Some m)) (s # ss)) =
     (if \<forall>s \<in> set tbl. \<not> P s then {(r, None)} else {(r, Some s) | s. s \<in> set tbl \<and> P s})"
proof (cases "filter P tbl")
  case Nil
  then show ?thesis by (simp add: filter_empty_conv)
next
  case (Cons s ss)
  then have some: "\<not> (\<forall>s \<in> set tbl. \<not> P s)"
    by (metis filter_empty_conv list.distinct(1))
  have "set (map (\<lambda>m. (r, Some m)) (filter P tbl)) = {(r, Some s) | s. s \<in> set tbl \<and> P s}"
    by auto
  with Cons have "set (case filter P tbl of [] \<Rightarrow> [(r, None)]
                        | s # ss \<Rightarrow> map (\<lambda>m. (r, Some m)) (s # ss)) =
                   {(r, Some s) | s. s \<in> set tbl \<and> P s}"
    by simp
  with some show ?thesis by (simp only: if_False)
qed

lemma set_leftJoin:
  "set (leftJoin rows tbl cond) =
     {(r, Some s) | r s. r \<in> set rows \<and> s \<in> set tbl \<and> cond r s}
     \<union> {(r, None) | r. r \<in> set rows \<and> (\<forall>s \<in> set tbl. \<not> cond r s)}"
  unfolding leftJoin_def set_concat set_map image_image set_leftJoin_row
  by (auto split: if_splits)

section \<open>Facts about the operations\<close>

text \<open>What each operation returns when its statements run, as sets of rows.\<close>

lemma filterProjects_runs:
  assumes "flt 0 = None" and "flt 1 = None"
  shows "filterProjectsByUserMembership flt db userId groupId projectIds tx =
     Inr (new_Set
       (pluck PM_projectId
          (whereIn PM_projectId projectIds
             (where_eq PM_userId userId (ProjectMembership (handle tx db))))
        @ pluck (GPM_projectId \<circ> snd)
            (whereIn (GPM_projectId \<circ> snd) projectIds
               (whereNot (UGM_groupId \<circ> fst) groupId
                  (where_eq (UGM_userId \<circ> fst) userId
                     (join (UserGroupMembership (handle tx db))
                           (GroupProjectMembership (handle tx db))
                           (\<lambda>m g. UGM_groupId m = GPM_groupId g)))))))"
  using assms
  by (simp add: filterProjectsByUserMembership_def try_catch_def and_then_def await_def)

lemma filterProjects_members:
  assumes "flt 0 = None" and "flt 1 = None"
  shows "\<exists>ps. filterProjectsByUserMembership flt db userId groupId projectIds tx = Inr ps
     \<and> distinct ps
     \<and> set ps =
        {p \<in> set projectIds.
           \<exists>pm \<in> set (ProjectMembership (handle tx db)).
             PM_userId pm = userId \<and> PM_projectId pm = p}
        \<union> {p \<in> set projectIds.
           \<exists>m \<in> set (UserGroupMembership (handle tx db)).
           \<exists>g \<in> set (GroupProjectMembership (handle tx db)).
             UGM_userId m = userId \<and> UGM_groupId m \<noteq> groupId
             \<and> GPM_groupId g = UGM_groupId m \<and> GPM_projectId g = p}"
  unfolding filterProjects_runs [OF assms]
  by (auto simp: set_new_Set distinct_new_Set set_pluck set_whereIn set_where_eq set_whereNot
      set_join image_iff) force+


lemma findGroupMembers_runs:
  assumes "flt 0 = None" and "flt 1 = None"
  shows "\<exists>rs. findGroupMembersNotInProject flt db groupId projectId tx = Inr rs
     \<and> set rs =
        (\<lambda>r. mk_member (fst (fst (fst r))) (snd (fst (fst r))) (map_option UEK_publicKey (snd r))) `
        {r \<in> set (leftJoin
                    (leftJoin
                       (join (UserGroupMembership (handle tx db)) (Users (handle tx db))
                          (\<lambda>m u. UGM_userId m = U_id u))
                       (ProjectMembership (handle tx db))
                       (\<lambda>mu p. U_id (snd mu) = PM_userId p \<and> PM_projectId p = projectId))
                    (UserEncryptionKey (handle tx db))
                    (\<lambda>mup k. UEK_userId k = U_id (snd (fst mup)))).
           UGM_groupId (fst (fst (fst r))) = groupId
         \<and> \<not> UGM_isPending (fst (fst (fst r)))
         \<and> snd (fst r) = None
         \<and> \<not> U_isGhost (snd (fst (fst r)))
         \<and> UGM_userId (fst (fst (fst r))) \<notin>
             UGM_userId ` {m' \<in> set (UserGroupMembership (handle tx db)).
                UGM_groupId m' \<in> GPM_groupId `
                  {g \<in> set (GroupProjectMembership (handle tx db)).
                     GPM_projectId g = projectId \<and> GPM_groupId g \<noteq> groupId}}}"
  using assms
  apply (simp add: findGroupMembersNotInProject_def try_catch_def and_then_def await_def)
  apply (simp add: set_pluck set_whereIn set_whereNotIn set_where_eq set_whereNot set_whereNull
      image_image mk_member_def)
  done


lemma in_join: "(r, s) \<in> set (join rows tbl cond) \<longleftrightarrow> r \<in> set rows \<and> s \<in> set tbl \<and> cond r s"
  by (simp add: set_join)

lemma in_leftJoin_None:
  "(r, None) \<in> set (leftJoin rows tbl cond) \<longleftrightarrow> r \<in> set rows \<and> (\<forall>s \<in> set tbl. \<not> cond r s)"
  by (simp add: set_leftJoin)

lemma in_leftJoin_Some:
  "(r, Some s) \<in> set (leftJoin rows tbl cond) \<longleftrightarrow> r \<in> set rows \<and> s \<in> set tbl \<and> cond r s"
  by (simp add: set_leftJoin)

lemma in_leftJoin_fst: "(r, so) \<in> set (leftJoin rows tbl cond) \<Longrightarrow> r \<in> set rows"
  by (cases so) (simp_all add: in_leftJoin_None in_leftJoin_Some)

lemma findGroupMembers_sound:
  assumes "flt 0 = None" and "flt 1 = None"
  shows "\<exists>rs. findGroupMembersNotInProject flt db groupId projectId tx = Inr rs
     \<and> (\<forall>r \<in> set rs.
          \<exists>m \<in> set (UserGroupMembership (handle tx db)).
          \<exists>u \<in> set (Users (handle tx db)).
            member_id r = UGM_id m \<and> member_groupId r = groupId
          \<and> user_id (member_user r) = U_id u
          \<and> UGM_userId m = U_id u
          \<and> UGM_groupId m = groupId
          \<and> \<not> UGM_isPending m
          \<and> \<not> U_isGhost u
          \<and> (\<forall>p \<in> set (ProjectMembership (handle tx db)).
                \<not> (PM_userId p = U_id u \<and> PM_projectId p = projectId))
          \<and> (\<forall>m' \<in> set (UserGroupMembership (handle tx db)).
              \<forall>g \<in> set (GroupProjectMembership (handle tx db)).
                UGM_userId m' = U_id u \<and> GPM_groupId g = UGM_groupId m'
                \<and> GPM_projectId g = projectId \<longrightarrow> GPM_groupId g = groupId))"
proof -
  let ?h = "handle tx db"
  from findGroupMembers_runs [OF assms, of db groupId projectId tx]
  obtain rs where run: "findGroupMembersNotInProject flt db groupId projectId tx = Inr rs"
    and rs: "set rs =
        (\<lambda>r. mk_member (fst (fst (fst r))) (snd (fst (fst r))) (map_option UEK_publicKey (snd r))) `
        {r \<in> set (leftJoin
                    (leftJoin
                       (join (UserGroupMembership ?h) (Users ?h)
                          (\<lambda>m u. UGM_userId m = U_id u))
                       (ProjectMembership ?h)
                       (\<lambda>mu p. U_id (snd mu) = PM_userId p \<and> PM_projectId p = projectId))
                    (UserEncryptionKey ?h)
                    (\<lambda>mup k. UEK_userId k = U_id (snd (fst mup)))).
           UGM_groupId (fst (fst (fst r))) = groupId
         \<and> \<not> UGM_isPending (fst (fst (fst r)))
         \<and> snd (fst r) = None
         \<and> \<not> U_isGhost (snd (fst (fst r)))
         \<and> UGM_userId (fst (fst (fst r))) \<notin>
             UGM_userId ` {m' \<in> set (UserGroupMembership ?h).
                UGM_groupId m' \<in> GPM_groupId `
                  {g \<in> set (GroupProjectMembership ?h).
                     GPM_projectId g = projectId \<and> GPM_groupId g \<noteq> groupId}}}"
    by blast
  have "\<exists>m \<in> set (UserGroupMembership ?h).
          \<exists>u \<in> set (Users ?h).
            member_id r = UGM_id m \<and> member_groupId r = groupId
          \<and> user_id (member_user r) = U_id u
          \<and> UGM_userId m = U_id u
          \<and> UGM_groupId m = groupId
          \<and> \<not> UGM_isPending m
          \<and> \<not> U_isGhost u
          \<and> (\<forall>p \<in> set (ProjectMembership ?h).
                \<not> (PM_userId p = U_id u \<and> PM_projectId p = projectId))
          \<and> (\<forall>m' \<in> set (UserGroupMembership ?h).
              \<forall>g \<in> set (GroupProjectMembership ?h).
                UGM_userId m' = U_id u \<and> GPM_groupId g = UGM_groupId m'
                \<and> GPM_projectId g = projectId \<longrightarrow> GPM_groupId g = groupId)"
    if "r \<in> set rs" for r
  proof -
    from that rs obtain m u pmo ko where
      row: "(((m, u), pmo), ko) \<in> set (leftJoin
                    (leftJoin
                       (join (UserGroupMembership ?h) (Users ?h)
                          (\<lambda>m u. UGM_userId m = U_id u))
                       (ProjectMembership ?h)
                       (\<lambda>mu p. U_id (snd mu) = PM_userId p \<and> PM_projectId p = projectId))
                    (UserEncryptionKey ?h)
                    (\<lambda>mup k. UEK_userId k = U_id (snd (fst mup))))"
      and grp: "UGM_groupId m = groupId"
      and acc: "\<not> UGM_isPending m"
      and nul: "pmo = None"
      and hum: "\<not> U_isGhost u"
      and oth: "UGM_userId m \<notin>
             UGM_userId ` {m' \<in> set (UserGroupMembership ?h).
                UGM_groupId m' \<in> GPM_groupId `
                  {g \<in> set (GroupProjectMembership ?h).
                     GPM_projectId g = projectId \<and> GPM_groupId g \<noteq> groupId}}"
      and r: "r = mk_member m u (map_option UEK_publicKey ko)"
      by auto
    from row have "((m, u), pmo) \<in> set (leftJoin
                       (join (UserGroupMembership ?h) (Users ?h)
                          (\<lambda>m u. UGM_userId m = U_id u))
                       (ProjectMembership ?h)
                       (\<lambda>mu p. U_id (snd mu) = PM_userId p \<and> PM_projectId p = projectId))"
      by (rule in_leftJoin_fst)
    with nul have mu: "(m, u) \<in> set (join (UserGroupMembership ?h) (Users ?h)
                          (\<lambda>m u. UGM_userId m = U_id u))"
      and npm: "\<forall>p \<in> set (ProjectMembership ?h).
                  \<not> (U_id u = PM_userId p \<and> PM_projectId p = projectId)"
      by (simp_all add: in_leftJoin_None)
    from mu have m: "m \<in> set (UserGroupMembership ?h)" and u: "u \<in> set (Users ?h)"
      and mu_id: "UGM_userId m = U_id u"
      by (simp_all add: in_join)
    from oth mu_id have others:
      "\<forall>m' \<in> set (UserGroupMembership ?h). \<forall>g \<in> set (GroupProjectMembership ?h).
         UGM_userId m' = U_id u \<and> GPM_groupId g = UGM_groupId m'
         \<and> GPM_projectId g = projectId \<longrightarrow> GPM_groupId g = groupId"
      by (auto simp: image_iff) metis
    from npm have npm': "\<forall>p \<in> set (ProjectMembership ?h).
                \<not> (PM_userId p = U_id u \<and> PM_projectId p = projectId)"
      by auto
    from r grp have "member_id r = UGM_id m" "member_groupId r = groupId"
      "user_id (member_user r) = U_id u"
      by (simp_all add: mk_member_def)
    with m u mu_id grp acc hum npm' others show ?thesis by blast
  qed
  with run show ?thesis by blast
qed

text \<open>The definitions that evaluate a query on the concrete store.\<close>

lemmas demo_eval = filterProjectsByUserMembership_def try_catch_def and_then_def await_def
  no_fault_def demo_db_def handle_def pluck_def whereIn_def where_eq_def whereNot_def
  whereNotIn_def whereNull_def join_def leftJoin_def new_Set_def Set_add_def

lemma findGroupMembers_complete:
  assumes "flt 0 = None" and "flt 1 = None"
    and m: "m \<in> set (UserGroupMembership (handle tx db))"
    and u: "u \<in> set (Users (handle tx db))"
    and mu: "UGM_userId m = U_id u"
    and grp: "UGM_groupId m = groupId"
    and acc: "\<not> UGM_isPending m"
    and hum: "\<not> U_isGhost u"
    and npm: "\<forall>p \<in> set (ProjectMembership (handle tx db)).
                \<not> (PM_userId p = U_id u \<and> PM_projectId p = projectId)"
    and oth: "\<forall>m' \<in> set (UserGroupMembership (handle tx db)).
              \<forall>g \<in> set (GroupProjectMembership (handle tx db)).
                UGM_userId m' = U_id u \<and> GPM_groupId g = UGM_groupId m'
                \<and> GPM_projectId g = projectId \<longrightarrow> GPM_groupId g = groupId"
  shows "\<exists>rs. findGroupMembersNotInProject flt db groupId projectId tx = Inr rs
     \<and> (\<exists>r \<in> set rs. member_id r = UGM_id m \<and> user_id (member_user r) = U_id u)"
proof -
  let ?h = "handle tx db"
  let ?J = "leftJoin
              (leftJoin
                 (join (UserGroupMembership ?h) (Users ?h) (\<lambda>m u. UGM_userId m = U_id u))
                 (ProjectMembership ?h)
                 (\<lambda>mu p. U_id (snd mu) = PM_userId p \<and> PM_projectId p = projectId))
              (UserEncryptionKey ?h)
              (\<lambda>mup k. UEK_userId k = U_id (snd (fst mup)))"
  from findGroupMembers_runs [OF assms(1,2), of db groupId projectId tx]
  obtain rs where run: "findGroupMembersNotInProject flt db groupId projectId tx = Inr rs"
    and rs: "set rs =
        (\<lambda>r. mk_member (fst (fst (fst r))) (snd (fst (fst r))) (map_option UEK_publicKey (snd r))) `
        {r \<in> set ?J.
           UGM_groupId (fst (fst (fst r))) = groupId
         \<and> \<not> UGM_isPending (fst (fst (fst r)))
         \<and> snd (fst r) = None
         \<and> \<not> U_isGhost (snd (fst (fst r)))
         \<and> UGM_userId (fst (fst (fst r))) \<notin>
             UGM_userId ` {m' \<in> set (UserGroupMembership ?h).
                UGM_groupId m' \<in> GPM_groupId `
                  {g \<in> set (GroupProjectMembership ?h).
                     GPM_projectId g = projectId \<and> GPM_groupId g \<noteq> groupId}}}"
    by blast
  from m u mu have "(m, u) \<in> set (join (UserGroupMembership ?h) (Users ?h)
                                     (\<lambda>m u. UGM_userId m = U_id u))"
    by (simp add: in_join)
  with npm have inner: "((m, u), None) \<in> set (leftJoin
                 (join (UserGroupMembership ?h) (Users ?h) (\<lambda>m u. UGM_userId m = U_id u))
                 (ProjectMembership ?h)
                 (\<lambda>mu p. U_id (snd mu) = PM_userId p \<and> PM_projectId p = projectId))"
    by (auto simp: in_leftJoin_None)
  have "\<exists>ko. (((m, u), None), ko) \<in> set ?J"
  proof (cases "\<forall>k \<in> set (UserEncryptionKey ?h). UEK_userId k \<noteq> U_id u")
    case True
    with inner have "(((m, u), None), None) \<in> set ?J"
      by (simp add: in_leftJoin_None)
    then show ?thesis ..
  next
    case False
    then obtain k where "k \<in> set (UserEncryptionKey ?h)" "UEK_userId k = U_id u"
      by blast
    with inner have "(((m, u), None), Some k) \<in> set ?J"
      by (simp add: in_leftJoin_Some)
    then show ?thesis ..
  qed
  then obtain ko where row: "(((m, u), None), ko) \<in> set ?J" ..
  from oth mu have excl: "UGM_userId m \<notin>
             UGM_userId ` {m' \<in> set (UserGroupMembership ?h).
                UGM_groupId m' \<in> GPM_groupId `
                  {g \<in> set (GroupProjectMembership ?h).
                     GPM_projectId g = projectId \<and> GPM_groupId g \<noteq> groupId}}"
    by auto metis
  from row grp acc hum excl
  have "mk_member m u (map_option UEK_publicKey ko) \<in> set rs"
    unfolding rs by force
  moreover have "member_id (mk_member m u (map_option UEK_publicKey ko)) = UGM_id m"
    "user_id (member_user (mk_member m u (map_option UEK_publicKey ko))) = U_id u"
    by (simp_all add: mk_member_def)
  ultimately show ?thesis using run by blast
qed

lemma findGroupMembers_accepted_pending:
  assumes "flt 0 = None" and "flt 1 = None"
  shows "\<exists>rs. findGroupMembersNotInProject flt db groupId projectId tx = Inr rs
     \<and> (\<forall>uid. (\<forall>m \<in> set (UserGroupMembership (handle tx db)).
                   UGM_userId m = uid \<and> UGM_groupId m = groupId \<longrightarrow> UGM_isPending m)
            \<longrightarrow> (\<forall>r \<in> set rs. user_id (member_user r) \<noteq> uid))"
proof -
  from findGroupMembers_sound [OF assms, of db groupId projectId tx]
  obtain rs where run: "findGroupMembersNotInProject flt db groupId projectId tx = Inr rs"
    and sound: "\<forall>r \<in> set rs.
          \<exists>m \<in> set (UserGroupMembership (handle tx db)).
          \<exists>u \<in> set (Users (handle tx db)).
            member_id r = UGM_id m \<and> member_groupId r = groupId
          \<and> user_id (member_user r) = U_id u
          \<and> UGM_userId m = U_id u
          \<and> UGM_groupId m = groupId
          \<and> \<not> UGM_isPending m
          \<and> \<not> U_isGhost u
          \<and> (\<forall>p \<in> set (ProjectMembership (handle tx db)).
                \<not> (PM_userId p = U_id u \<and> PM_projectId p = projectId))
          \<and> (\<forall>m' \<in> set (UserGroupMembership (handle tx db)).
              \<forall>g \<in> set (GroupProjectMembership (handle tx db)).
                UGM_userId m' = U_id u \<and> GPM_groupId g = UGM_groupId m'
                \<and> GPM_projectId g = projectId \<longrightarrow> GPM_groupId g = groupId)"
    by blast
  from sound have "\<forall>r \<in> set rs.
          \<exists>m \<in> set (UserGroupMembership (handle tx db)).
            UGM_userId m = user_id (member_user r)
          \<and> UGM_groupId m = groupId \<and> \<not> UGM_isPending m"
    by metis
  then have "\<forall>uid. (\<forall>m \<in> set (UserGroupMembership (handle tx db)).
                   UGM_userId m = uid \<and> UGM_groupId m = groupId \<longrightarrow> UGM_isPending m)
            \<longrightarrow> (\<forall>r \<in> set rs. user_id (member_user r) \<noteq> uid)"
    by metis
  with run show ?thesis by blast
qed

lemma findUserGroupMemberships_runs:
  assumes "flt 0 = None"
  shows "findUserGroupMembershipsInProject flt db usernames projectId =
     Inr (pluck (U_id \<circ> snd)
            (whereIn (U_username \<circ> snd) usernames
               (where_eq (GPM_projectId \<circ> snd \<circ> fst) projectId
                  (join
                     (join (UserGroupMembership db) (GroupProjectMembership db)
                        (\<lambda>m g. UGM_groupId m = GPM_groupId g))
                     (Users db)
                     (\<lambda>mg u. UGM_userId (fst mg) = U_id u)))))"
  using assms
  by (simp add: findUserGroupMembershipsInProject_def try_catch_def and_then_def await_def)

lemma map_snd_enumerate_comp: "map (\<lambda>ir. f (snd ir)) (enumerate n xs) = map f xs"
  by (induction xs arbitrary: n) simp_all

lemma deletePending_runs:
  assumes "flt 0 = None" and "flt 1 = None"
  shows "\<exists>report.
     deletePendingUserGroupMembershipsByUserIds flt Date db userIds tx =
       Inr (report, userGroupMembershipOrm_delete userIds (handle tx db))
     \<and> map (\<lambda>r. (ruser_id (removed_user r), rgroup_id (removed_group r))) report =
        map (\<lambda>r. (UGM_userId (fst (fst r)), UGM_groupId (fst (fst r))))
          (where_eq (UGM_isPending \<circ> fst \<circ> fst) True
             (whereIn (UGM_userId \<circ> fst \<circ> fst) userIds
                (join
                   (join (UserGroupMembership (handle tx db)) (Groups (handle tx db))
                      (\<lambda>m g. UGM_groupId m = G_id g))
                   (Users (handle tx db))
                   (\<lambda>mg u. UGM_userId (fst mg) = U_id u))))"
  using assms
  by (simp add: deletePendingUserGroupMembershipsByUserIds_def try_catch_def and_then_def
      await_def comp_def
      map_snd_enumerate_comp
        [where f = "\<lambda>r. (UGM_userId (fst (fst r)), UGM_groupId (fst (fst r)))"])

lemma pending_rows_joined:
  assumes fk_group: "\<forall>m \<in> set ugm. \<exists>g \<in> set groups. G_id g = UGM_groupId m"
    and fk_user: "\<forall>m \<in> set ugm. \<exists>u \<in> set users. U_id u = UGM_userId m"
  shows "(\<lambda>r. (UGM_userId (fst (fst r)), UGM_groupId (fst (fst r)))) `
           set (where_eq (UGM_isPending \<circ> fst \<circ> fst) True
                  (whereIn (UGM_userId \<circ> fst \<circ> fst) userIds
                     (join (join ugm groups (\<lambda>m g. UGM_groupId m = G_id g)) users
                        (\<lambda>mg u. UGM_userId (fst mg) = U_id u))))
         = (\<lambda>m. (UGM_userId m, UGM_groupId m)) `
             {m \<in> set ugm. UGM_userId m \<in> set userIds \<and> UGM_isPending m}"
    (is "?f ` set ?rows = ?k ` ?P")
proof (rule set_eqI, rule iffI)
  fix x
  assume "x \<in> ?f ` set ?rows"
  then obtain m g u where
    row: "((m, g), u) \<in> set (join (join ugm groups (\<lambda>m g. UGM_groupId m = G_id g)) users
                        (\<lambda>mg u. UGM_userId (fst mg) = U_id u))"
    and sel: "UGM_userId m \<in> set userIds" "UGM_isPending m"
    and x: "x = (UGM_userId m, UGM_groupId m)"
    by (auto simp: set_whereIn set_where_eq)
  from row have "(m, g) \<in> set (join ugm groups (\<lambda>m g. UGM_groupId m = G_id g))"
    by (simp add: in_join)
  then have "m \<in> set ugm" by (simp add: in_join)
  with sel have "m \<in> ?P" by simp
  then have "?k m \<in> ?k ` ?P" by (rule imageI)
  with x show "x \<in> ?k ` ?P" by simp
next
  fix x
  assume "x \<in> ?k ` ?P"
  then obtain m where m: "m \<in> set ugm" and sel: "UGM_userId m \<in> set userIds" "UGM_isPending m"
    and x: "x = (UGM_userId m, UGM_groupId m)"
    by blast
  from fk_group m obtain g where g: "g \<in> set groups" "G_id g = UGM_groupId m" by blast
  from fk_user m obtain u where u: "u \<in> set users" "U_id u = UGM_userId m" by blast
  from m g u have "((m, g), u) \<in> set (join (join ugm groups (\<lambda>m g. UGM_groupId m = G_id g)) users
                        (\<lambda>mg u. UGM_userId (fst mg) = U_id u))"
    by (simp add: in_join)
  with sel have "((m, g), u) \<in> set ?rows"
    by (simp add: set_whereIn set_where_eq)
  then have "?f ((m, g), u) \<in> ?f ` set ?rows" by (rule imageI)
  with x show "x \<in> ?f ` set ?rows" by simp
qed

section \<open>Claims\<close>

text \<open>
  C9. Whatever the user and the excluded group, when neither statement fails,
  filterProjectsByUserMembership called with an empty list of candidate projects
  returns the empty set.
\<close>

theorem filterProjects_empty_candidates:
  "flt 0 = None \<Longrightarrow> flt 1 = None \<Longrightarrow>
   filterProjectsByUserMembership flt db userId groupId [] tx = Inr []"
  by (simp add: filterProjectsByUserMembership_def try_catch_def and_then_def await_def
      pluck_def whereIn_def new_Set_def)

theorem filterProjects_empty_candidates_witness:
  "no_fault 0 = None \<and> no_fault 1 = None
   \<and> filterProjectsByUserMembership no_fault demo_db ''u1'' ''g1'' [] None = Inr []"
  using filterProjects_empty_candidates [of no_fault demo_db "''u1''" "''g1''" None]
  by (simp add: no_fault_def)

text \<open>
  C1. For every user, excluded group and list of candidate projects, when neither
  statement fails, filterProjectsByUserMembership returns the union of A, the candidate
  projects for which a ProjectMembership row of the user exists, and B, the candidate
  projects granted to a group, other than the excluded one, in which the user has a
  UserGroupMembership row. The returned Set holds every element once (a project in
  both A and B included), and holds candidate projects only.
\<close>

theorem filterProjects_union:
  assumes "flt 0 = None" and "flt 1 = None"
  shows "\<exists>ps. filterProjectsByUserMembership flt db userId excludedGroupId candidateProjectIds tx
            = Inr ps
     \<and> set ps =
        {p \<in> set candidateProjectIds.
           \<exists>pm \<in> set (ProjectMembership (handle tx db)).
             PM_userId pm = userId \<and> PM_projectId pm = p}
        \<union> {p \<in> set candidateProjectIds.
           \<exists>m \<in> set (UserGroupMembership (handle tx db)).
           \<exists>g \<in> set (GroupProjectMembership (handle tx db)).
             UGM_userId m = userId \<and> UGM_groupId m \<noteq> excludedGroupId
             \<and> GPM_groupId g = UGM_groupId m \<and> GPM_projectId g = p}
     \<and> distinct ps
     \<and> set ps \<subseteq> set candidateProjectIds"
proof -
  from filterProjects_members [OF assms, of db userId excludedGroupId candidateProjectIds tx]
  obtain ps where
    run: "filterProjectsByUserMembership flt db userId excludedGroupId candidateProjectIds tx
            = Inr ps"
    and dist: "distinct ps"
    and mem: "set ps =
        {p \<in> set candidateProjectIds.
           \<exists>pm \<in> set (ProjectMembership (handle tx db)).
             PM_userId pm = userId \<and> PM_projectId pm = p}
        \<union> {p \<in> set candidateProjectIds.
           \<exists>m \<in> set (UserGroupMembership (handle tx db)).
           \<exists>g \<in> set (GroupProjectMembership (handle tx db)).
             UGM_userId m = userId \<and> UGM_groupId m \<noteq> excludedGroupId
             \<and> GPM_groupId g = UGM_groupId m \<and> GPM_projectId g = p}"
    by blast
  from mem have "set ps \<subseteq> set candidateProjectIds" by blast
  with run dist mem show ?thesis by blast
qed

theorem filterProjects_union_witness:
  "no_fault 0 = None \<and> no_fault 1 = None
   \<and> filterProjectsByUserMembership no_fault demo_db ''u1'' ''g2'' [''p1'', ''p2'', ''p1''] None
       = Inr [''p1'', ''p2'']
   \<and> (\<exists>ps. filterProjectsByUserMembership no_fault demo_db ''u1'' ''g2''
              [''p1'', ''p2'', ''p1''] None = Inr ps
        \<and> set ps =
           {p \<in> set [''p1'', ''p2'', ''p1''].
              \<exists>pm \<in> set (ProjectMembership (handle None demo_db)).
                PM_userId pm = ''u1'' \<and> PM_projectId pm = p}
           \<union> {p \<in> set [''p1'', ''p2'', ''p1''].
              \<exists>m \<in> set (UserGroupMembership (handle None demo_db)).
              \<exists>g \<in> set (GroupProjectMembership (handle None demo_db)).
                UGM_userId m = ''u1'' \<and> UGM_groupId m \<noteq> ''g2''
                \<and> GPM_groupId g = UGM_groupId m \<and> GPM_projectId g = p}
        \<and> distinct ps
        \<and> set ps \<subseteq> set [''p1'', ''p2'', ''p1''])"
proof -
  have nf: "no_fault 0 = None" "no_fault 1 = None"
    by (simp_all add: no_fault_def)
  have ev: "filterProjectsByUserMembership no_fault demo_db ''u1'' ''g2''
              [''p1'', ''p2'', ''p1''] None = Inr [''p1'', ''p2'']"
    by (simp add: demo_eval)
  from nf ev
    filterProjects_union [OF nf, of demo_db "''u1''" "''g2''" "[''p1'', ''p2'', ''p1'']" None]
  show ?thesis by blast
qed

text \<open>
  C3. If the user has no ProjectMembership row for project P, and every
  UserGroupMembership row of the user in a group granted to P is a row of the excluded
  group, then P is not in the result of filterProjectsByUserMembership.
\<close>

theorem filterProjects_excluded_only_path:
  assumes "flt 0 = None" and "flt 1 = None"
    and no_direct: "\<forall>pm \<in> set (ProjectMembership (handle tx db)).
                      \<not> (PM_userId pm = userId \<and> PM_projectId pm = P)"
    and only_excluded:
      "\<forall>m \<in> set (UserGroupMembership (handle tx db)).
       \<forall>g \<in> set (GroupProjectMembership (handle tx db)).
         UGM_userId m = userId \<and> GPM_groupId g = UGM_groupId m \<and> GPM_projectId g = P
         \<longrightarrow> UGM_groupId m = excludedGroupId"
  shows "\<exists>ps. filterProjectsByUserMembership flt db userId excludedGroupId candidateProjectIds tx
            = Inr ps \<and> P \<notin> set ps"
proof -
  from filterProjects_members [OF assms(1,2), of db userId excludedGroupId candidateProjectIds tx]
  obtain ps where
    run: "filterProjectsByUserMembership flt db userId excludedGroupId candidateProjectIds tx
            = Inr ps"
    and mem: "set ps =
        {p \<in> set candidateProjectIds.
           \<exists>pm \<in> set (ProjectMembership (handle tx db)).
             PM_userId pm = userId \<and> PM_projectId pm = p}
        \<union> {p \<in> set candidateProjectIds.
           \<exists>m \<in> set (UserGroupMembership (handle tx db)).
           \<exists>g \<in> set (GroupProjectMembership (handle tx db)).
             UGM_userId m = userId \<and> UGM_groupId m \<noteq> excludedGroupId
             \<and> GPM_groupId g = UGM_groupId m \<and> GPM_projectId g = p}"
    by blast
  from no_direct only_excluded have "P \<notin> set ps"
    unfolding mem by blast
  with run show ?thesis by blast
qed

theorem filterProjects_excluded_only_path_witness:
  "no_fault 0 = None \<and> no_fault 1 = None
   \<and> (\<exists>m \<in> set (UserGroupMembership (handle None demo_db)).
       \<exists>g \<in> set (GroupProjectMembership (handle None demo_db)).
         UGM_userId m = ''u1'' \<and> UGM_groupId m = ''g1''
         \<and> GPM_groupId g = ''g1'' \<and> GPM_projectId g = ''p2'')
   \<and> filterProjectsByUserMembership no_fault demo_db ''u1'' ''g1'' [''p1'', ''p2''] None
       = Inr [''p1'']
   \<and> (\<exists>ps. filterProjectsByUserMembership no_fault demo_db ''u1'' ''g1'' [''p1'', ''p2''] None
              = Inr ps \<and> ''p2'' \<notin> set ps)"
proof -
  have nf: "no_fault 0 = None" "no_fault 1 = None"
    by (simp_all add: no_fault_def)
  have nd: "\<forall>pm \<in> set (ProjectMembership (handle None demo_db)).
         \<not> (PM_userId pm = ''u1'' \<and> PM_projectId pm = ''p2'')"
    by (simp add: handle_def demo_db_def)
  have oe: "\<forall>m \<in> set (UserGroupMembership (handle None demo_db)).
       \<forall>g \<in> set (GroupProjectMembership (handle None demo_db)).
         UGM_userId m = ''u1'' \<and> GPM_groupId g = UGM_groupId m \<and> GPM_projectId g = ''p2''
         \<longrightarrow> UGM_groupId m = ''g1''"
    by (simp add: handle_def demo_db_def)
  have path: "\<exists>m \<in> set (UserGroupMembership (handle None demo_db)).
       \<exists>g \<in> set (GroupProjectMembership (handle None demo_db)).
         UGM_userId m = ''u1'' \<and> UGM_groupId m = ''g1''
         \<and> GPM_groupId g = ''g1'' \<and> GPM_projectId g = ''p2''"
    by (simp add: handle_def demo_db_def)
  have ev: "filterProjectsByUserMembership no_fault demo_db ''u1'' ''g1'' [''p1'', ''p2''] None
       = Inr [''p1'']"
    by (simp add: demo_eval)
  from nf path ev
    filterProjects_excluded_only_path [OF nf nd oe, where candidateProjectIds = "[''p1'', ''p2'']"]
  show ?thesis by blast
qed

text \<open>
  C4. When neither statement fails, every record that findGroupMembersNotInProject
  returns comes from a UserGroupMembership row of the group with isPending = false and
  from the Users row of that member, this user is not a ghost, and no ProjectMembership
  row joins the user to the project. A user id all of whose Users rows are ghosts is
  never returned, and neither is a user id all of whose memberships in the group are
  pending, whatever the other tables hold.
\<close>

theorem findGroupMembers_accepted_human_not_direct:
  assumes "flt 0 = None" and "flt 1 = None"
  shows "\<exists>rs. findGroupMembersNotInProject flt db groupId projectId tx = Inr rs
     \<and> (\<forall>r \<in> set rs.
          \<exists>m \<in> set (UserGroupMembership (handle tx db)).
          \<exists>u \<in> set (Users (handle tx db)).
            member_id r = UGM_id m \<and> member_groupId r = groupId
          \<and> user_id (member_user r) = U_id u
          \<and> UGM_userId m = U_id u
          \<and> UGM_groupId m = groupId
          \<and> \<not> UGM_isPending m
          \<and> \<not> U_isGhost u
          \<and> (\<forall>p \<in> set (ProjectMembership (handle tx db)).
                \<not> (PM_userId p = U_id u \<and> PM_projectId p = projectId)))
     \<and> (\<forall>uid. (\<forall>u \<in> set (Users (handle tx db)). U_id u = uid \<longrightarrow> U_isGhost u)
            \<longrightarrow> (\<forall>r \<in> set rs. user_id (member_user r) \<noteq> uid))
     \<and> (\<forall>uid. (\<forall>m \<in> set (UserGroupMembership (handle tx db)).
                   UGM_userId m = uid \<and> UGM_groupId m = groupId \<longrightarrow> UGM_isPending m)
            \<longrightarrow> (\<forall>r \<in> set rs. user_id (member_user r) \<noteq> uid))"
proof -
  from findGroupMembers_sound [OF assms, of db groupId projectId tx]
  obtain rs where run: "findGroupMembersNotInProject flt db groupId projectId tx = Inr rs"
    and sound: "\<forall>r \<in> set rs.
          \<exists>m \<in> set (UserGroupMembership (handle tx db)).
          \<exists>u \<in> set (Users (handle tx db)).
            member_id r = UGM_id m \<and> member_groupId r = groupId
          \<and> user_id (member_user r) = U_id u
          \<and> UGM_userId m = U_id u
          \<and> UGM_groupId m = groupId
          \<and> \<not> UGM_isPending m
          \<and> \<not> U_isGhost u
          \<and> (\<forall>p \<in> set (ProjectMembership (handle tx db)).
                \<not> (PM_userId p = U_id u \<and> PM_projectId p = projectId))
          \<and> (\<forall>m' \<in> set (UserGroupMembership (handle tx db)).
              \<forall>g \<in> set (GroupProjectMembership (handle tx db)).
                UGM_userId m' = U_id u \<and> GPM_groupId g = UGM_groupId m'
                \<and> GPM_projectId g = projectId \<longrightarrow> GPM_groupId g = groupId)"
    by blast
  from sound have a: "\<forall>r \<in> set rs.
          \<exists>m \<in> set (UserGroupMembership (handle tx db)).
          \<exists>u \<in> set (Users (handle tx db)).
            member_id r = UGM_id m \<and> member_groupId r = groupId
          \<and> user_id (member_user r) = U_id u
          \<and> UGM_userId m = U_id u
          \<and> UGM_groupId m = groupId
          \<and> \<not> UGM_isPending m
          \<and> \<not> U_isGhost u
          \<and> (\<forall>p \<in> set (ProjectMembership (handle tx db)).
                \<not> (PM_userId p = U_id u \<and> PM_projectId p = projectId))"
    by blast
  from a have b: "\<forall>uid. (\<forall>u \<in> set (Users (handle tx db)). U_id u = uid \<longrightarrow> U_isGhost u)
            \<longrightarrow> (\<forall>r \<in> set rs. user_id (member_user r) \<noteq> uid)"
    by metis
  from a have c: "\<forall>uid. (\<forall>m \<in> set (UserGroupMembership (handle tx db)).
                   UGM_userId m = uid \<and> UGM_groupId m = groupId \<longrightarrow> UGM_isPending m)
            \<longrightarrow> (\<forall>r \<in> set rs. user_id (member_user r) \<noteq> uid)"
    by metis
  from run a b c show ?thesis by blast
qed


theorem findGroupMembers_accepted_human_not_direct_witness:
  "no_fault 0 = None \<and> no_fault 1 = None
   \<and> findGroupMembersNotInProject no_fault demo_db ''g1'' ''p1'' None =
       Inr [mk_member
              \<lparr>UGM_id = ''m2'', UGM_userId = ''u2'', UGM_groupId = ''g1'', UGM_isPending = False\<rparr>
              \<lparr>U_id = ''u2'', U_username = ''bob'', U_email = ''b@x'', U_firstName = ''B'',
                U_lastName = ''L'', U_isGhost = False\<rparr> None,
            mk_member
              \<lparr>UGM_id = ''m5'', UGM_userId = ''u4'', UGM_groupId = ''g1'', UGM_isPending = False\<rparr>
              \<lparr>U_id = ''u4'', U_username = ''carol'', U_email = ''c@x'', U_firstName = ''C'',
                U_lastName = ''L'', U_isGhost = False\<rparr> (Some ''pk4''),
            mk_member
              \<lparr>UGM_id = ''m6'', UGM_userId = ''u5'', UGM_groupId = ''g1'', UGM_isPending = False\<rparr>
              \<lparr>U_id = ''u5'', U_username = ''dave'', U_email = ''d@x'', U_firstName = ''D'',
                U_lastName = ''L'', U_isGhost = False\<rparr> None]
   \<and> (\<exists>rs. findGroupMembersNotInProject no_fault demo_db ''g1'' ''p1'' None = Inr rs
        \<and> (\<forall>r \<in> set rs. user_id (member_user r) \<noteq> ''u1'')
        \<and> (\<forall>r \<in> set rs. user_id (member_user r) \<noteq> ''u3''))"
proof -
  have nf: "no_fault 0 = None" "no_fault 1 = None"
    by (simp_all add: no_fault_def)
  have ev: "findGroupMembersNotInProject no_fault demo_db ''g1'' ''p1'' None =
       Inr [mk_member
              \<lparr>UGM_id = ''m2'', UGM_userId = ''u2'', UGM_groupId = ''g1'', UGM_isPending = False\<rparr>
              \<lparr>U_id = ''u2'', U_username = ''bob'', U_email = ''b@x'', U_firstName = ''B'',
                U_lastName = ''L'', U_isGhost = False\<rparr> None,
            mk_member
              \<lparr>UGM_id = ''m5'', UGM_userId = ''u4'', UGM_groupId = ''g1'', UGM_isPending = False\<rparr>
              \<lparr>U_id = ''u4'', U_username = ''carol'', U_email = ''c@x'', U_firstName = ''C'',
                U_lastName = ''L'', U_isGhost = False\<rparr> (Some ''pk4''),
            mk_member
              \<lparr>UGM_id = ''m6'', UGM_userId = ''u5'', UGM_groupId = ''g1'', UGM_isPending = False\<rparr>
              \<lparr>U_id = ''u5'', U_username = ''dave'', U_email = ''d@x'', U_firstName = ''D'',
                U_lastName = ''L'', U_isGhost = False\<rparr> None]"
    by (simp add: findGroupMembersNotInProject_def mk_member_def demo_eval)
  have ghost: "\<forall>u \<in> set (Users (handle None demo_db)). U_id u = ''u3'' \<longrightarrow> U_isGhost u"
    by (simp add: handle_def demo_db_def)
  have pending: "\<forall>m \<in> set (UserGroupMembership (handle None demo_db)).
                   UGM_userId m = ''u1'' \<and> UGM_groupId m = ''g1'' \<longrightarrow> UGM_isPending m"
    by (simp add: handle_def demo_db_def)
  from findGroupMembers_accepted_human_not_direct [OF nf, of demo_db "''g1''" "''p1''" None]
  obtain rs where run: "findGroupMembersNotInProject no_fault demo_db ''g1'' ''p1'' None = Inr rs"
    and g: "\<forall>uid. (\<forall>u \<in> set (Users (handle None demo_db)). U_id u = uid \<longrightarrow> U_isGhost u)
            \<longrightarrow> (\<forall>r \<in> set rs. user_id (member_user r) \<noteq> uid)"
    and p: "\<forall>uid. (\<forall>m \<in> set (UserGroupMembership (handle None demo_db)).
                   UGM_userId m = uid \<and> UGM_groupId m = ''g1'' \<longrightarrow> UGM_isPending m)
            \<longrightarrow> (\<forall>r \<in> set rs. user_id (member_user r) \<noteq> uid)"
    by blast
  from g ghost have "\<forall>r \<in> set rs. user_id (member_user r) \<noteq> ''u3''"
    by blast
  moreover from p pending have "\<forall>r \<in> set rs. user_id (member_user r) \<noteq> ''u1''"
    by blast
  ultimately show ?thesis using nf ev run by blast
qed

text \<open>
  C5. If a user has a UserGroupMembership row in a group other than groupId that has
  a GroupProjectMembership row for the project, then findGroupMembersNotInProject
  returns no record of this user; in particular none for an accepted member of groupId.
\<close>

theorem findGroupMembers_other_group_excludes:
  assumes "flt 0 = None" and "flt 1 = None"
    and other_row: "m' \<in> set (UserGroupMembership (handle tx db))"
    and other_user: "UGM_userId m' = uid"
    and other_group: "UGM_groupId m' \<noteq> groupId"
    and grant: "g \<in> set (GroupProjectMembership (handle tx db))"
    and grant_group: "GPM_groupId g = UGM_groupId m'"
    and grant_project: "GPM_projectId g = projectId"
  shows "\<exists>rs. findGroupMembersNotInProject flt db groupId projectId tx = Inr rs
     \<and> (\<forall>r \<in> set rs. user_id (member_user r) \<noteq> uid)"
proof -
  from findGroupMembers_sound [OF assms(1,2), of db groupId projectId tx]
  obtain rs where run: "findGroupMembersNotInProject flt db groupId projectId tx = Inr rs"
    and sound: "\<forall>r \<in> set rs.
          \<exists>m \<in> set (UserGroupMembership (handle tx db)).
          \<exists>u \<in> set (Users (handle tx db)).
            member_id r = UGM_id m \<and> member_groupId r = groupId
          \<and> user_id (member_user r) = U_id u
          \<and> UGM_userId m = U_id u
          \<and> UGM_groupId m = groupId
          \<and> \<not> UGM_isPending m
          \<and> \<not> U_isGhost u
          \<and> (\<forall>p \<in> set (ProjectMembership (handle tx db)).
                \<not> (PM_userId p = U_id u \<and> PM_projectId p = projectId))
          \<and> (\<forall>m' \<in> set (UserGroupMembership (handle tx db)).
              \<forall>g \<in> set (GroupProjectMembership (handle tx db)).
                UGM_userId m' = U_id u \<and> GPM_groupId g = UGM_groupId m'
                \<and> GPM_projectId g = projectId \<longrightarrow> GPM_groupId g = groupId)"
    by blast
  have "user_id (member_user r) \<noteq> uid" if "r \<in> set rs" for r
  proof
    assume eq: "user_id (member_user r) = uid"
    from sound that have "\<exists>m \<in> set (UserGroupMembership (handle tx db)).
          \<exists>u \<in> set (Users (handle tx db)).
            member_id r = UGM_id m \<and> member_groupId r = groupId
          \<and> user_id (member_user r) = U_id u
          \<and> UGM_userId m = U_id u
          \<and> UGM_groupId m = groupId
          \<and> \<not> UGM_isPending m
          \<and> \<not> U_isGhost u
          \<and> (\<forall>p \<in> set (ProjectMembership (handle tx db)).
                \<not> (PM_userId p = U_id u \<and> PM_projectId p = projectId))
          \<and> (\<forall>m' \<in> set (UserGroupMembership (handle tx db)).
              \<forall>g \<in> set (GroupProjectMembership (handle tx db)).
                UGM_userId m' = U_id u \<and> GPM_groupId g = UGM_groupId m'
                \<and> GPM_projectId g = projectId \<longrightarrow> GPM_groupId g = groupId)"
      by (rule bspec)
    then obtain u :: Users_row where
      "user_id (member_user r) = U_id u"
      and others: "\<forall>m' \<in> set (UserGroupMembership (handle tx db)).
              \<forall>g \<in> set (GroupProjectMembership (handle tx db)).
                UGM_userId m' = U_id u \<and> GPM_groupId g = UGM_groupId m'
                \<and> GPM_projectId g = projectId \<longrightarrow> GPM_groupId g = groupId"
      by blast
    with eq other_user have "UGM_userId m' = U_id u" by simp
    with others other_row grant grant_group grant_project have "GPM_groupId g = groupId"
      by blast
    with grant_group other_group show False by simp
  qed
  with run show ?thesis by blast
qed

theorem findGroupMembers_other_group_excludes_witness:
  "no_fault 0 = None \<and> no_fault 1 = None
   \<and> (\<exists>m \<in> set (UserGroupMembership demo_db).
         UGM_userId m = ''u5'' \<and> UGM_groupId m = ''g1'' \<and> \<not> UGM_isPending m)
   \<and> \<lparr>UGM_id = ''m7'', UGM_userId = ''u5'', UGM_groupId = ''g2'', UGM_isPending = False\<rparr>
       \<in> set (UserGroupMembership (handle None demo_db))
   \<and> \<lparr>GPM_groupId = ''g2'', GPM_projectId = ''p2''\<rparr>
       \<in> set (GroupProjectMembership (handle None demo_db))
   \<and> (\<exists>rs. findGroupMembersNotInProject no_fault demo_db ''g1'' ''p2'' None = Inr rs
        \<and> (\<forall>r \<in> set rs. user_id (member_user r) \<noteq> ''u5''))"
proof -
  have nf: "no_fault 0 = None" "no_fault 1 = None"
    by (simp_all add: no_fault_def)
  have member: "\<exists>m \<in> set (UserGroupMembership demo_db).
         UGM_userId m = ''u5'' \<and> UGM_groupId m = ''g1'' \<and> \<not> UGM_isPending m"
    by (simp add: demo_db_def)
  have row: "\<lparr>UGM_id = ''m7'', UGM_userId = ''u5'', UGM_groupId = ''g2'', UGM_isPending = False\<rparr>
       \<in> set (UserGroupMembership (handle None demo_db))"
    by (simp add: handle_def demo_db_def)
  have grant: "\<lparr>GPM_groupId = ''g2'', GPM_projectId = ''p2''\<rparr>
       \<in> set (GroupProjectMembership (handle None demo_db))"
    by (simp add: handle_def demo_db_def)
  from findGroupMembers_other_group_excludes [OF nf row _ _ grant, of "''u5''" "''g1''" "''p2''"]
  have "\<exists>rs. findGroupMembersNotInProject no_fault demo_db ''g1'' ''p2'' None = Inr rs
        \<and> (\<forall>r \<in> set rs. user_id (member_user r) \<noteq> ''u5'')"
    by simp
  with nf member row grant show ?thesis by blast
qed

text \<open>
  C6. The exclusion by other groups does not look at isPending. Take an accepted
  member of groupId whose user is no ghost and has no ProjectMembership row for the
  project, who has a membership in another group granted to the project, every such
  membership being pending. Then that membership is pending, findGroupMembersNotInProject
  returns no record of the user, and on the store without the pending memberships it
  does return one: the pending membership alone excludes the user.
\<close>

theorem findGroupMembers_pending_other_group_excludes:
  assumes "flt 0 = None" and "flt 1 = None"
    and member: "m \<in> set (UserGroupMembership (handle tx db))"
    and member_group: "UGM_groupId m = groupId"
    and accepted: "\<not> UGM_isPending m"
    and user: "u \<in> set (Users (handle tx db))"
    and user_id: "UGM_userId m = U_id u"
    and human: "\<not> U_isGhost u"
    and no_direct: "\<forall>p \<in> set (ProjectMembership (handle tx db)).
                      \<not> (PM_userId p = U_id u \<and> PM_projectId p = projectId)"
    and other_row: "m' \<in> set (UserGroupMembership (handle tx db))"
    and other_user: "UGM_userId m' = U_id u"
    and other_group: "UGM_groupId m' \<noteq> groupId"
    and grant: "g \<in> set (GroupProjectMembership (handle tx db))"
    and grant_group: "GPM_groupId g = UGM_groupId m'"
    and grant_project: "GPM_projectId g = projectId"
    and only_pending:
      "\<forall>x \<in> set (UserGroupMembership (handle tx db)).
       \<forall>y \<in> set (GroupProjectMembership (handle tx db)).
         UGM_userId x = U_id u \<and> UGM_groupId x \<noteq> groupId
         \<and> GPM_groupId y = UGM_groupId x \<and> GPM_projectId y = projectId
         \<longrightarrow> UGM_isPending x"
  shows "UGM_isPending m'
     \<and> (\<exists>rs. findGroupMembersNotInProject flt db groupId projectId tx = Inr rs
          \<and> (\<forall>r \<in> set rs. user_id (member_user r) \<noteq> U_id u))
     \<and> (\<exists>rs. findGroupMembersNotInProject flt
                 ((handle tx db)\<lparr>UserGroupMembership :=
                    filter (\<lambda>x. \<not> UGM_isPending x) (UserGroupMembership (handle tx db))\<rparr>)
                 groupId projectId None = Inr rs
          \<and> (\<exists>r \<in> set rs. user_id (member_user r) = U_id u))"
proof -
  let ?h = "handle tx db"
  let ?db' = "?h\<lparr>UserGroupMembership :=
                 filter (\<lambda>x. \<not> UGM_isPending x) (UserGroupMembership ?h)\<rparr>"
  from only_pending other_row other_user other_group grant grant_group grant_project
  have pend: "UGM_isPending m'" by blast
  from findGroupMembers_sound [OF assms(1,2), of db groupId projectId tx]
  obtain rs where run: "findGroupMembersNotInProject flt db groupId projectId tx = Inr rs"
    and sound: "\<forall>r \<in> set rs.
          \<exists>m \<in> set (UserGroupMembership ?h).
          \<exists>u \<in> set (Users ?h).
            member_id r = UGM_id m \<and> member_groupId r = groupId
          \<and> user_id (member_user r) = U_id u
          \<and> UGM_userId m = U_id u
          \<and> UGM_groupId m = groupId
          \<and> \<not> UGM_isPending m
          \<and> \<not> U_isGhost u
          \<and> (\<forall>p \<in> set (ProjectMembership ?h).
                \<not> (PM_userId p = U_id u \<and> PM_projectId p = projectId))
          \<and> (\<forall>m' \<in> set (UserGroupMembership ?h).
              \<forall>g \<in> set (GroupProjectMembership ?h).
                UGM_userId m' = U_id u \<and> GPM_groupId g = UGM_groupId m'
                \<and> GPM_projectId g = projectId \<longrightarrow> GPM_groupId g = groupId)"
    by blast
  have absent: "user_id (member_user r) \<noteq> U_id u" if "r \<in> set rs" for r
  proof
    assume eq: "user_id (member_user r) = U_id u"
    from sound that have "\<exists>m \<in> set (UserGroupMembership ?h).
          \<exists>u \<in> set (Users ?h).
            member_id r = UGM_id m \<and> member_groupId r = groupId
          \<and> user_id (member_user r) = U_id u
          \<and> UGM_userId m = U_id u
          \<and> UGM_groupId m = groupId
          \<and> \<not> UGM_isPending m
          \<and> \<not> U_isGhost u
          \<and> (\<forall>p \<in> set (ProjectMembership ?h).
                \<not> (PM_userId p = U_id u \<and> PM_projectId p = projectId))
          \<and> (\<forall>m' \<in> set (UserGroupMembership ?h).
              \<forall>g \<in> set (GroupProjectMembership ?h).
                UGM_userId m' = U_id u \<and> GPM_groupId g = UGM_groupId m'
                \<and> GPM_projectId g = projectId \<longrightarrow> GPM_groupId g = groupId)"
      by (rule bspec)
    then obtain v :: Users_row where
      "user_id (member_user r) = U_id v"
      and others: "\<forall>m' \<in> set (UserGroupMembership ?h).
              \<forall>g \<in> set (GroupProjectMembership ?h).
                UGM_userId m' = U_id v \<and> GPM_groupId g = UGM_groupId m'
                \<and> GPM_projectId g = projectId \<longrightarrow> GPM_groupId g = groupId"
      by blast
    with eq other_user have "UGM_userId m' = U_id v" by simp
    with others other_row grant grant_group grant_project have "GPM_groupId g = groupId"
      by blast
    with grant_group other_group show False by simp
  qed
  have h': "handle None ?db' = ?db'"
    by (simp add: handle_def)
  have m_in: "m \<in> set (UserGroupMembership (handle None ?db'))"
    using member accepted by (simp add: h')
  have u_in: "u \<in> set (Users (handle None ?db'))"
    using user by (simp add: h')
  have npm: "\<forall>p \<in> set (ProjectMembership (handle None ?db')).
                \<not> (PM_userId p = U_id u \<and> PM_projectId p = projectId)"
    using no_direct by (simp add: h')
  have oth: "\<forall>x \<in> set (UserGroupMembership (handle None ?db')).
             \<forall>y \<in> set (GroupProjectMembership (handle None ?db')).
               UGM_userId x = U_id u \<and> GPM_groupId y = UGM_groupId x
               \<and> GPM_projectId y = projectId \<longrightarrow> GPM_groupId y = groupId"
    using only_pending unfolding h' by simp metis
  from findGroupMembers_complete
         [OF assms(1,2) m_in u_in user_id member_group accepted human npm oth]
  have "\<exists>rs. findGroupMembersNotInProject flt ?db' groupId projectId None = Inr rs
          \<and> (\<exists>r \<in> set rs. user_id (member_user r) = U_id u)"
    by blast
  with pend run absent show ?thesis by blast
qed

theorem findGroupMembers_pending_other_group_excludes_witness:
  "no_fault 0 = None \<and> no_fault 1 = None
   \<and> (\<exists>rs. findGroupMembersNotInProject no_fault demo_db ''g1'' ''p2'' None = Inr rs
        \<and> (\<forall>r \<in> set rs. user_id (member_user r) \<noteq> ''u2''))
   \<and> (\<exists>rs. findGroupMembersNotInProject no_fault
               (demo_db\<lparr>UserGroupMembership :=
                  filter (\<lambda>x. \<not> UGM_isPending x) (UserGroupMembership demo_db)\<rparr>)
               ''g1'' ''p2'' None = Inr rs
        \<and> (\<exists>r \<in> set rs. user_id (member_user r) = ''u2''))"
proof -
  let ?m2 = "\<lparr>UGM_id = ''m2'', UGM_userId = ''u2'', UGM_groupId = ''g1'', UGM_isPending = False\<rparr>"
  let ?m3 = "\<lparr>UGM_id = ''m3'', UGM_userId = ''u2'', UGM_groupId = ''g2'', UGM_isPending = True\<rparr>"
  let ?bob = "\<lparr>U_id = ''u2'', U_username = ''bob'', U_email = ''b@x'', U_firstName = ''B'',
                U_lastName = ''L'', U_isGhost = False\<rparr>"
  let ?grant = "\<lparr>GPM_groupId = ''g2'', GPM_projectId = ''p2''\<rparr>"
  have nf: "no_fault 0 = None" "no_fault 1 = None"
    by (simp_all add: no_fault_def)
  have member: "?m2 \<in> set (UserGroupMembership (handle None demo_db))"
    by (simp add: handle_def demo_db_def)
  have member_group: "UGM_groupId ?m2 = ''g1''" by simp
  have accepted: "\<not> UGM_isPending ?m2" by simp
  have user: "?bob \<in> set (Users (handle None demo_db))"
    by (simp add: handle_def demo_db_def)
  have user_id: "UGM_userId ?m2 = U_id ?bob" by simp
  have human: "\<not> U_isGhost ?bob" by simp
  have no_direct: "\<forall>p \<in> set (ProjectMembership (handle None demo_db)).
                      \<not> (PM_userId p = U_id ?bob \<and> PM_projectId p = ''p2'')"
    by (simp add: handle_def demo_db_def)
  have other_row: "?m3 \<in> set (UserGroupMembership (handle None demo_db))"
    by (simp add: handle_def demo_db_def)
  have other_user: "UGM_userId ?m3 = U_id ?bob" by simp
  have other_group: "UGM_groupId ?m3 \<noteq> ''g1''" by simp
  have grant: "?grant \<in> set (GroupProjectMembership (handle None demo_db))"
    by (simp add: handle_def demo_db_def)
  have grant_group: "GPM_groupId ?grant = UGM_groupId ?m3" by simp
  have grant_project: "GPM_projectId ?grant = ''p2''" by simp
  have only_pending:
      "\<forall>x \<in> set (UserGroupMembership (handle None demo_db)).
       \<forall>y \<in> set (GroupProjectMembership (handle None demo_db)).
         UGM_userId x = U_id ?bob \<and> UGM_groupId x \<noteq> ''g1''
         \<and> GPM_groupId y = UGM_groupId x \<and> GPM_projectId y = ''p2''
         \<longrightarrow> UGM_isPending x"
    by (simp add: handle_def demo_db_def)
  from findGroupMembers_pending_other_group_excludes
         [OF nf member member_group accepted user user_id human no_direct
             other_row other_user other_group grant grant_group grant_project only_pending]
  have "(\<exists>rs. findGroupMembersNotInProject no_fault demo_db ''g1'' ''p2'' None = Inr rs
        \<and> (\<forall>r \<in> set rs. user_id (member_user r) \<noteq> ''u2''))
   \<and> (\<exists>rs. findGroupMembersNotInProject no_fault
               (demo_db\<lparr>UserGroupMembership :=
                  filter (\<lambda>x. \<not> UGM_isPending x) (UserGroupMembership demo_db)\<rparr>)
               ''g1'' ''p2'' None = Inr rs
        \<and> (\<exists>r \<in> set rs. user_id (member_user r) = ''u2''))"
    by (simp add: handle_def)
  with nf show ?thesis by blast
qed

text \<open>
  C7. filterProjectsByUserMembership has no pending filter: a candidate project
  granted to a group, other than the excluded one, in which the user has a pending
  membership is in the result. findGroupMembersNotInProject does filter: a user whose
  memberships in that group are all pending is not among its records.
\<close>

theorem filterProjects_no_pending_filter:
  assumes "flt 0 = None" and "flt 1 = None"
    and row: "m \<in> set (UserGroupMembership (handle tx db))"
    and row_user: "UGM_userId m = userId"
    and pending: "UGM_isPending m"
    and not_excluded: "UGM_groupId m \<noteq> excludedGroupId"
    and grant: "g \<in> set (GroupProjectMembership (handle tx db))"
    and grant_group: "GPM_groupId g = UGM_groupId m"
    and grant_project: "GPM_projectId g = P"
    and candidate: "P \<in> set candidateProjectIds"
  shows "(\<exists>ps. filterProjectsByUserMembership flt db userId excludedGroupId
                candidateProjectIds tx = Inr ps \<and> P \<in> set ps)
     \<and> ((\<forall>x \<in> set (UserGroupMembership (handle tx db)).
            UGM_userId x = userId \<and> UGM_groupId x = UGM_groupId m \<longrightarrow> UGM_isPending x)
         \<longrightarrow> (\<exists>rs. findGroupMembersNotInProject flt db (UGM_groupId m) projectId tx = Inr rs
                \<and> (\<forall>r \<in> set rs. user_id (member_user r) \<noteq> userId)))"
proof -
  let ?h = "handle tx db"
  from filterProjects_members [OF assms(1,2), of db userId excludedGroupId candidateProjectIds tx]
  obtain ps where
    run: "filterProjectsByUserMembership flt db userId excludedGroupId candidateProjectIds tx
            = Inr ps"
    and mem: "set ps =
        {p \<in> set candidateProjectIds.
           \<exists>pm \<in> set (ProjectMembership ?h).
             PM_userId pm = userId \<and> PM_projectId pm = p}
        \<union> {p \<in> set candidateProjectIds.
           \<exists>m \<in> set (UserGroupMembership ?h).
           \<exists>g \<in> set (GroupProjectMembership ?h).
             UGM_userId m = userId \<and> UGM_groupId m \<noteq> excludedGroupId
             \<and> GPM_groupId g = UGM_groupId m \<and> GPM_projectId g = p}"
    by blast
  from row row_user not_excluded grant grant_group grant_project candidate
  have "P \<in> set ps" unfolding mem by blast
  with run have first: "\<exists>ps. filterProjectsByUserMembership flt db userId excludedGroupId
                candidateProjectIds tx = Inr ps \<and> P \<in> set ps"
    by blast
  from findGroupMembers_accepted_pending [OF assms(1,2), of db "UGM_groupId m" projectId tx]
  have second: "(\<forall>x \<in> set (UserGroupMembership ?h).
            UGM_userId x = userId \<and> UGM_groupId x = UGM_groupId m \<longrightarrow> UGM_isPending x)
         \<longrightarrow> (\<exists>rs. findGroupMembersNotInProject flt db (UGM_groupId m) projectId tx = Inr rs
                \<and> (\<forall>r \<in> set rs. user_id (member_user r) \<noteq> userId))"
    by blast
  from first second show ?thesis ..
qed

theorem filterProjects_no_pending_filter_witness:
  "no_fault 0 = None \<and> no_fault 1 = None
   \<and> filterProjectsByUserMembership no_fault demo_db ''u1'' '''' [''p1'', ''p2''] None
       = Inr [''p1'', ''p2'']
   \<and> (\<exists>ps. filterProjectsByUserMembership no_fault demo_db ''u1'' ''''
              [''p1'', ''p2''] None = Inr ps \<and> ''p2'' \<in> set ps)
   \<and> (\<exists>rs. findGroupMembersNotInProject no_fault demo_db ''g1'' ''p2'' None = Inr rs
        \<and> (\<forall>r \<in> set rs. user_id (member_user r) \<noteq> ''u1''))"
proof -
  let ?m1 = "\<lparr>UGM_id = ''m1'', UGM_userId = ''u1'', UGM_groupId = ''g1'', UGM_isPending = True\<rparr>"
  let ?grant = "\<lparr>GPM_groupId = ''g1'', GPM_projectId = ''p2''\<rparr>"
  have nf: "no_fault 0 = None" "no_fault 1 = None"
    by (simp_all add: no_fault_def)
  have ev: "filterProjectsByUserMembership no_fault demo_db ''u1'' '''' [''p1'', ''p2''] None
       = Inr [''p1'', ''p2'']"
    by (simp add: demo_eval)
  have row: "?m1 \<in> set (UserGroupMembership (handle None demo_db))"
    by (simp add: handle_def demo_db_def)
  have row_user: "UGM_userId ?m1 = ''u1''" by simp
  have pending: "UGM_isPending ?m1" by simp
  have not_excluded: "UGM_groupId ?m1 \<noteq> ''''" by simp
  have grant: "?grant \<in> set (GroupProjectMembership (handle None demo_db))"
    by (simp add: handle_def demo_db_def)
  have grant_group: "GPM_groupId ?grant = UGM_groupId ?m1" by simp
  have grant_project: "GPM_projectId ?grant = ''p2''" by simp
  have candidate: "''p2'' \<in> set [''p1'', ''p2'']" by simp
  have all_pending: "\<forall>x \<in> set (UserGroupMembership (handle None demo_db)).
            UGM_userId x = ''u1'' \<and> UGM_groupId x = UGM_groupId ?m1 \<longrightarrow> UGM_isPending x"
    by (simp add: handle_def demo_db_def)
  from filterProjects_no_pending_filter
         [OF nf row row_user pending not_excluded grant grant_group grant_project candidate,
          where projectId = "''p2''"] all_pending
  have "(\<exists>ps. filterProjectsByUserMembership no_fault demo_db ''u1'' ''''
              [''p1'', ''p2''] None = Inr ps \<and> ''p2'' \<in> set ps)
   \<and> (\<exists>rs. findGroupMembersNotInProject no_fault demo_db ''g1'' ''p2'' None = Inr rs
        \<and> (\<forall>r \<in> set rs. user_id (member_user r) \<noteq> ''u1''))"
    by simp
  with nf ev show ?thesis by blast
qed

text \<open>
  C8. When its statement runs, findUserGroupMembershipsInProject returns the ids of
  exactly the Users rows whose username is among the given ones and whose id is the
  userId of a UserGroupMembership row of a group with a GroupProjectMembership row for
  the project. Neither isPending nor isGhost is looked at: a ghost user with a pending
  membership that meets these conditions is returned.
\<close>

theorem findUserGroupMemberships_exact:
  assumes "flt 0 = None"
  shows "\<exists>ids. findUserGroupMembershipsInProject flt db usernames projectId = Inr ids
     \<and> set ids =
        {U_id u | u. u \<in> set (Users db) \<and> U_username u \<in> set usernames
           \<and> (\<exists>m \<in> set (UserGroupMembership db). \<exists>g \<in> set (GroupProjectMembership db).
                 UGM_userId m = U_id u \<and> GPM_groupId g = UGM_groupId m
                 \<and> GPM_projectId g = projectId)}
     \<and> (\<forall>u \<in> set (Users db). \<forall>m \<in> set (UserGroupMembership db).
         \<forall>g \<in> set (GroupProjectMembership db).
           U_username u \<in> set usernames \<and> UGM_userId m = U_id u
           \<and> GPM_groupId g = UGM_groupId m \<and> GPM_projectId g = projectId
           \<and> UGM_isPending m \<and> U_isGhost u
           \<longrightarrow> U_id u \<in> set ids)"
proof -
  let ?ids = "pluck (U_id \<circ> snd)
            (whereIn (U_username \<circ> snd) usernames
               (where_eq (GPM_projectId \<circ> snd \<circ> fst) projectId
                  (join
                     (join (UserGroupMembership db) (GroupProjectMembership db)
                        (\<lambda>m g. UGM_groupId m = GPM_groupId g))
                     (Users db)
                     (\<lambda>mg u. UGM_userId (fst mg) = U_id u))))"
  have run: "findUserGroupMembershipsInProject flt db usernames projectId = Inr ?ids"
    by (rule findUserGroupMemberships_runs [where flt = flt, OF assms])
  have mem: "set ?ids =
        {U_id u | u. u \<in> set (Users db) \<and> U_username u \<in> set usernames
           \<and> (\<exists>m \<in> set (UserGroupMembership db). \<exists>g \<in> set (GroupProjectMembership db).
                 UGM_userId m = U_id u \<and> GPM_groupId g = UGM_groupId m
                 \<and> GPM_projectId g = projectId)}"
  proof (rule set_eqI, rule iffI)
    fix x
    assume "x \<in> set ?ids"
    then obtain m g u where
      row: "((m, g), u) \<in> set (join
                     (join (UserGroupMembership db) (GroupProjectMembership db)
                        (\<lambda>m g. UGM_groupId m = GPM_groupId g))
                     (Users db)
                     (\<lambda>mg u. UGM_userId (fst mg) = U_id u))"
      and prj: "GPM_projectId g = projectId"
      and nam: "U_username u \<in> set usernames"
      and x: "x = U_id u"
      by (auto simp: set_pluck set_whereIn set_where_eq)
    from row have "(m, g) \<in> set (join (UserGroupMembership db) (GroupProjectMembership db)
                        (\<lambda>m g. UGM_groupId m = GPM_groupId g))"
      and u: "u \<in> set (Users db)" and mu: "UGM_userId m = U_id u"
      by (simp_all add: in_join)
    then have "m \<in> set (UserGroupMembership db)" "g \<in> set (GroupProjectMembership db)"
      "GPM_groupId g = UGM_groupId m"
      by (simp_all add: in_join)
    with u mu prj nam x
    show "x \<in> {U_id u | u. u \<in> set (Users db) \<and> U_username u \<in> set usernames
           \<and> (\<exists>m \<in> set (UserGroupMembership db). \<exists>g \<in> set (GroupProjectMembership db).
                 UGM_userId m = U_id u \<and> GPM_groupId g = UGM_groupId m
                 \<and> GPM_projectId g = projectId)}"
      by blast
  next
    fix x
    assume "x \<in> {U_id u | u. u \<in> set (Users db) \<and> U_username u \<in> set usernames
           \<and> (\<exists>m \<in> set (UserGroupMembership db). \<exists>g \<in> set (GroupProjectMembership db).
                 UGM_userId m = U_id u \<and> GPM_groupId g = UGM_groupId m
                 \<and> GPM_projectId g = projectId)}"
    then obtain u m g where u: "u \<in> set (Users db)" and nam: "U_username u \<in> set usernames"
      and m: "m \<in> set (UserGroupMembership db)" and g: "g \<in> set (GroupProjectMembership db)"
      and mu: "UGM_userId m = U_id u" and gm: "GPM_groupId g = UGM_groupId m"
      and prj: "GPM_projectId g = projectId" and x: "x = U_id u"
      by blast
    from m g gm u mu have "((m, g), u) \<in> set (join
                     (join (UserGroupMembership db) (GroupProjectMembership db)
                        (\<lambda>m g. UGM_groupId m = GPM_groupId g))
                     (Users db)
                     (\<lambda>mg u. UGM_userId (fst mg) = U_id u))"
      by (simp add: in_join)
    with prj nam have "((m, g), u) \<in> set (whereIn (U_username \<circ> snd) usernames
               (where_eq (GPM_projectId \<circ> snd \<circ> fst) projectId
                  (join
                     (join (UserGroupMembership db) (GroupProjectMembership db)
                        (\<lambda>m g. UGM_groupId m = GPM_groupId g))
                     (Users db)
                     (\<lambda>mg u. UGM_userId (fst mg) = U_id u))))"
      by (simp add: set_whereIn set_where_eq)
    then have "(U_id \<circ> snd) ((m, g), u) \<in> set ?ids"
      unfolding set_pluck by (rule imageI)
    with x show "x \<in> set ?ids" by simp
  qed
  from mem have incl: "\<forall>u \<in> set (Users db). \<forall>m \<in> set (UserGroupMembership db).
         \<forall>g \<in> set (GroupProjectMembership db).
           U_username u \<in> set usernames \<and> UGM_userId m = U_id u
           \<and> GPM_groupId g = UGM_groupId m \<and> GPM_projectId g = projectId
           \<and> UGM_isPending m \<and> U_isGhost u
           \<longrightarrow> U_id u \<in> set ?ids"
    by blast
  from run mem incl show ?thesis by blast
qed

theorem findUserGroupMemberships_exact_witness:
  "no_fault 0 = None
   \<and> findUserGroupMembershipsInProject no_fault demo_db [''alice'', ''ghost'', ''nobody''] ''p1''
       = Inr [''u1'', ''u3'']
   \<and> (\<exists>ids. findUserGroupMembershipsInProject no_fault demo_db
               [''alice'', ''ghost'', ''nobody''] ''p1'' = Inr ids
        \<and> set ids =
           {U_id u | u. u \<in> set (Users demo_db)
              \<and> U_username u \<in> set [''alice'', ''ghost'', ''nobody'']
              \<and> (\<exists>m \<in> set (UserGroupMembership demo_db).
                  \<exists>g \<in> set (GroupProjectMembership demo_db).
                    UGM_userId m = U_id u \<and> GPM_groupId g = UGM_groupId m
                    \<and> GPM_projectId g = ''p1'')}
        \<and> (\<forall>u \<in> set (Users demo_db). \<forall>m \<in> set (UserGroupMembership demo_db).
            \<forall>g \<in> set (GroupProjectMembership demo_db).
              U_username u \<in> set [''alice'', ''ghost'', ''nobody''] \<and> UGM_userId m = U_id u
              \<and> GPM_groupId g = UGM_groupId m \<and> GPM_projectId g = ''p1''
              \<and> UGM_isPending m \<and> U_isGhost u
              \<longrightarrow> U_id u \<in> set ids))"
proof -
  have nf: "no_fault 0 = None"
    by (simp add: no_fault_def)
  have ev: "findUserGroupMembershipsInProject no_fault demo_db
              [''alice'', ''ghost'', ''nobody''] ''p1'' = Inr [''u1'', ''u3'']"
    by (simp add: findUserGroupMembershipsInProject_def demo_eval)
  note run = findUserGroupMemberships_exact
         [where flt = no_fault, OF nf, of demo_db "[''alice'', ''ghost'', ''nobody'']" "''p1''"]
  show ?thesis
    by (rule conjI [OF nf conjI [OF ev run]])
qed

text \<open>
  C2. On a store whose UserGroupMembership rows refer to existing Groups and Users
  rows, when both statements run, deletePendingUserGroupMembershipsByUserIds reports
  exactly the (user, group) pairs of the rows that were pending for the given users
  when it was called, while its delete removes every UserGroupMembership row of these
  users, pending or accepted, and leaves the other tables as they were. An accepted
  membership is removed without being reported.
\<close>

theorem deletePending_snapshot:
  assumes "flt 0 = None" and "flt 1 = None"
    and fk_group: "\<forall>m \<in> set (UserGroupMembership (handle tx db)).
                     \<exists>g \<in> set (Groups (handle tx db)). G_id g = UGM_groupId m"
    and fk_user: "\<forall>m \<in> set (UserGroupMembership (handle tx db)).
                    \<exists>u \<in> set (Users (handle tx db)). U_id u = UGM_userId m"
  shows "\<exists>report after.
     deletePendingUserGroupMembershipsByUserIds flt Date db userIds tx = Inr (report, after)
     \<and> (\<lambda>r. (ruser_id (removed_user r), rgroup_id (removed_group r))) ` set report =
        (\<lambda>m. (UGM_userId m, UGM_groupId m)) `
          {m \<in> set (UserGroupMembership (handle tx db)).
             UGM_userId m \<in> set userIds \<and> UGM_isPending m}
     \<and> after = (handle tx db)\<lparr>UserGroupMembership :=
                  filter (\<lambda>m. UGM_userId m \<notin> set userIds)
                    (UserGroupMembership (handle tx db))\<rparr>
     \<and> (\<forall>m \<in> set (UserGroupMembership after). UGM_userId m \<notin> set userIds)"
proof -
  let ?h = "handle tx db"
  let ?rows = "where_eq (UGM_isPending \<circ> fst \<circ> fst) True
             (whereIn (UGM_userId \<circ> fst \<circ> fst) userIds
                (join
                   (join (UserGroupMembership ?h) (Groups ?h) (\<lambda>m g. UGM_groupId m = G_id g))
                   (Users ?h)
                   (\<lambda>mg u. UGM_userId (fst mg) = U_id u)))"
  from deletePending_runs [OF assms(1,2), of Date db userIds tx]
  obtain report where
    run: "deletePendingUserGroupMembershipsByUserIds flt Date db userIds tx =
            Inr (report, userGroupMembershipOrm_delete userIds ?h)"
    and pairs: "map (\<lambda>r. (ruser_id (removed_user r), rgroup_id (removed_group r))) report =
                map (\<lambda>r. (UGM_userId (fst (fst r)), UGM_groupId (fst (fst r)))) ?rows"
    by blast
  from pairs have "set (map (\<lambda>r. (ruser_id (removed_user r), rgroup_id (removed_group r))) report) =
                set (map (\<lambda>r. (UGM_userId (fst (fst r)), UGM_groupId (fst (fst r)))) ?rows)"
    by (rule arg_cong)
  then have "(\<lambda>r. (ruser_id (removed_user r), rgroup_id (removed_group r))) ` set report =
        (\<lambda>r. (UGM_userId (fst (fst r)), UGM_groupId (fst (fst r)))) ` set ?rows"
    by (simp only: set_map)
  with pending_rows_joined [OF fk_group fk_user, of userIds]
  have reported: "(\<lambda>r. (ruser_id (removed_user r), rgroup_id (removed_group r))) ` set report =
        (\<lambda>m. (UGM_userId m, UGM_groupId m)) `
          {m \<in> set (UserGroupMembership ?h). UGM_userId m \<in> set userIds \<and> UGM_isPending m}"
    by simp
  have after: "userGroupMembershipOrm_delete userIds ?h =
       ?h\<lparr>UserGroupMembership :=
            filter (\<lambda>m. UGM_userId m \<notin> set userIds) (UserGroupMembership ?h)\<rparr>"
    by (simp add: userGroupMembershipOrm_delete_def whereNotIn_def)
  have gone: "\<forall>m \<in> set (UserGroupMembership (userGroupMembershipOrm_delete userIds ?h)).
                UGM_userId m \<notin> set userIds"
    by (simp add: after)
  from run reported after gone show ?thesis by blast
qed

theorem deletePending_snapshot_witness:
  "no_fault 0 = None \<and> no_fault 1 = None
   \<and> deletePendingUserGroupMembershipsByUserIds no_fault (\<lambda>n. 100 + n) demo_db
        [''u1'', ''u2''] None =
       Inr ([\<lparr>removed_user = \<lparr>ruser_id = ''u1'', ruser_username = ''alice''\<rparr>,
              removed_group = \<lparr>rgroup_id = ''g1'', rgroup_orgId = ''o1'', rgroup_name = ''Devs'',
                rgroup_slug = ''devs'', rgroup_role = ''member'', rgroup_roleId = ''r1'',
                rgroup_createdAt = 100, rgroup_updatedAt = 101\<rparr>\<rparr>,
             \<lparr>removed_user = \<lparr>ruser_id = ''u2'', ruser_username = ''bob''\<rparr>,
              removed_group = \<lparr>rgroup_id = ''g2'', rgroup_orgId = ''o1'', rgroup_name = ''Ops'',
                rgroup_slug = ''ops'', rgroup_role = ''admin'', rgroup_roleId = ''r2'',
                rgroup_createdAt = 102, rgroup_updatedAt = 103\<rparr>\<rparr>],
            demo_db\<lparr>UserGroupMembership :=
              [\<lparr>UGM_id = ''m4'', UGM_userId = ''u3'', UGM_groupId = ''g1'', UGM_isPending = False\<rparr>,
               \<lparr>UGM_id = ''m5'', UGM_userId = ''u4'', UGM_groupId = ''g1'', UGM_isPending = False\<rparr>,
               \<lparr>UGM_id = ''m6'', UGM_userId = ''u5'', UGM_groupId = ''g1'', UGM_isPending = False\<rparr>,
               \<lparr>UGM_id = ''m7'', UGM_userId = ''u5'', UGM_groupId = ''g2'', UGM_isPending = False\<rparr>]\<rparr>)
   \<and> (\<exists>report after.
        deletePendingUserGroupMembershipsByUserIds no_fault (\<lambda>n. 100 + n) demo_db
          [''u1'', ''u2''] None = Inr (report, after)
        \<and> (\<lambda>r. (ruser_id (removed_user r), rgroup_id (removed_group r))) ` set report =
           (\<lambda>m. (UGM_userId m, UGM_groupId m)) `
             {m \<in> set (UserGroupMembership (handle None demo_db)).
                UGM_userId m \<in> set [''u1'', ''u2''] \<and> UGM_isPending m}
        \<and> after = (handle None demo_db)\<lparr>UserGroupMembership :=
                     filter (\<lambda>m. UGM_userId m \<notin> set [''u1'', ''u2''])
                       (UserGroupMembership (handle None demo_db))\<rparr>
        \<and> (\<forall>m \<in> set (UserGroupMembership after). UGM_userId m \<notin> set [''u1'', ''u2'']))"
proof -
  have nf0: "no_fault 0 = None" and nf1: "no_fault 1 = None"
    by (simp_all add: no_fault_def)
  have ev: "deletePendingUserGroupMembershipsByUserIds no_fault (\<lambda>n. 100 + n) demo_db
        [''u1'', ''u2''] None =
       Inr ([\<lparr>removed_user = \<lparr>ruser_id = ''u1'', ruser_username = ''alice''\<rparr>,
              removed_group = \<lparr>rgroup_id = ''g1'', rgroup_orgId = ''o1'', rgroup_name = ''Devs'',
                rgroup_slug = ''devs'', rgroup_role = ''member'', rgroup_roleId = ''r1'',
                rgroup_createdAt = 100, rgroup_updatedAt = 101\<rparr>\<rparr>,
             \<lparr>removed_user = \<lparr>ruser_id = ''u2'', ruser_username = ''bob''\<rparr>,
              removed_group = \<lparr>rgroup_id = ''g2'', rgroup_orgId = ''o1'', rgroup_name = ''Ops'',
                rgroup_slug = ''ops'', rgroup_role = ''admin'', rgroup_roleId = ''r2'',
                rgroup_createdAt = 102, rgroup_updatedAt = 103\<rparr>\<rparr>],
            demo_db\<lparr>UserGroupMembership :=
              [\<lparr>UGM_id = ''m4'', UGM_userId = ''u3'', UGM_groupId = ''g1'', UGM_isPending = False\<rparr>,
               \<lparr>UGM_id = ''m5'', UGM_userId = ''u4'', UGM_groupId = ''g1'', UGM_isPending = False\<rparr>,
               \<lparr>UGM_id = ''m6'', UGM_userId = ''u5'', UGM_groupId = ''g1'', UGM_isPending = False\<rparr>,
               \<lparr>UGM_id = ''m7'', UGM_userId = ''u5'', UGM_groupId = ''g2'', UGM_isPending = False\<rparr>]\<rparr>)"
    by (simp add: deletePendingUserGroupMembershipsByUserIds_def
        userGroupMembershipOrm_delete_def demo_eval)
  have fk_group: "\<forall>m \<in> set (UserGroupMembership (handle None demo_db)).
                     \<exists>g \<in> set (Groups (handle None demo_db)). G_id g = UGM_groupId m"
    by (simp add: handle_def demo_db_def)
  have fk_user: "\<forall>m \<in> set (UserGroupMembership (handle None demo_db)).
                    \<exists>u \<in> set (Users (handle None demo_db)). U_id u = UGM_userId m"
    by (simp add: handle_def demo_db_def)
  note run = deletePending_snapshot
    [where flt = no_fault and Date = "\<lambda>n. 100 + n" and userIds = "[''u1'', ''u2'']",
     OF nf0 nf1 fk_group fk_user]
  show ?thesis
    by (rule conjI [OF nf0 conjI [OF nf1 conjI [OF ev run]]])
qed

text \<open>
  C10. Each of the four operations fails exactly when one of its statements fails.
  It then raises a DatabaseError that carries the cause thrown by that statement (the
  first one to fail) and the fixed label of the operation; nothing of what an earlier
  statement returned is handed to the caller.
\<close>

theorem storage_failure_raises_DatabaseError:
  "(filterProjectsByUserMembership flt db userId excludedGroupId candidateProjectIds tx = Inl e
      \<longleftrightarrow> (\<exists>c. e = DatabaseError c ''Filter projects by user membership''
                \<and> (flt 0 = Some c \<or> flt 0 = None \<and> flt 1 = Some c)))
   \<and> (findUserGroupMembershipsInProject flt db usernames projectId = Inl e
      \<longleftrightarrow> (\<exists>c. e = DatabaseError c ''Find user group members in project''
                \<and> flt 0 = Some c))
   \<and> (findGroupMembersNotInProject flt db groupId projectId tx = Inl e
      \<longleftrightarrow> (\<exists>c. e = DatabaseError c ''Find group members not in project''
                \<and> (flt 0 = Some c \<or> flt 0 = None \<and> flt 1 = Some c)))
   \<and> (deletePendingUserGroupMembershipsByUserIds flt Date db userIds tx = Inl e
      \<longleftrightarrow> (\<exists>c. e = DatabaseError c ''Delete pending user group memberships by user ids''
                \<and> (flt 0 = Some c \<or> flt 0 = None \<and> flt 1 = Some c)))"
proof (intro conjI)
  show "filterProjectsByUserMembership flt db userId excludedGroupId candidateProjectIds tx = Inl e
      \<longleftrightarrow> (\<exists>c. e = DatabaseError c ''Filter projects by user membership''
                \<and> (flt 0 = Some c \<or> flt 0 = None \<and> flt 1 = Some c))"
    by (cases "flt 0"; cases "flt 1")
       (auto simp: filterProjectsByUserMembership_def try_catch_def and_then_def await_def)
  show "findUserGroupMembershipsInProject flt db usernames projectId = Inl e
      \<longleftrightarrow> (\<exists>c. e = DatabaseError c ''Find user group members in project''
                \<and> flt 0 = Some c)"
    by (cases "flt 0")
       (auto simp: findUserGroupMembershipsInProject_def try_catch_def and_then_def await_def)
  show "findGroupMembersNotInProject flt db groupId projectId tx = Inl e
      \<longleftrightarrow> (\<exists>c. e = DatabaseError c ''Find group members not in project''
                \<and> (flt 0 = Some c \<or> flt 0 = None \<and> flt 1 = Some c))"
    by (cases "flt 0"; cases "flt 1")
       (auto simp: findGroupMembersNotInProject_def try_catch_def and_then_def await_def)
  show "deletePendingUserGroupMembershipsByUserIds flt Date db userIds tx = Inl e
      \<longleftrightarrow> (\<exists>c. e = DatabaseError c ''Delete pending user group memberships by user ids''
                \<and> (flt 0 = Some c \<or> flt 0 = None \<and> flt 1 = Some c))"
    by (cases "flt 0"; cases "flt 1")
       (auto simp: deletePendingUserGroupMembershipsByUserIds_def try_catch_def and_then_def
          await_def)
qed

theorem storage_failure_raises_DatabaseError_witness:
  "filterProjectsByUserMembership (\<lambda>n. if n = 1 then Some ''connection lost'' else None)
       demo_db ''u1'' ''g1'' [''p1'', ''p2''] None
     = Inl (DatabaseError ''connection lost'' ''Filter projects by user membership'')
   \<and> findUserGroupMembershipsInProject (\<lambda>n. Some ''timeout'') demo_db [''alice''] ''p1''
     = Inl (DatabaseError ''timeout'' ''Find user group members in project'')
   \<and> findGroupMembersNotInProject (\<lambda>n. if n = 1 then Some ''connection lost'' else None)
       demo_db ''g1'' ''p2'' None
     = Inl (DatabaseError ''connection lost'' ''Find group members not in project'')
   \<and> deletePendingUserGroupMembershipsByUserIds
       (\<lambda>n. if n = 1 then Some ''connection lost'' else None) (\<lambda>n. n) demo_db [''u1''] None
     = Inl (DatabaseError ''connection lost''
              ''Delete pending user group memberships by user ids'')"
proof -
  let ?late = "\<lambda>n::nat. if n = 1 then Some ''connection lost'' else None"
  let ?all = "\<lambda>n::nat. Some ''timeout''"
  have a: "filterProjectsByUserMembership ?late demo_db ''u1'' ''g1'' [''p1'', ''p2''] None
     = Inl (DatabaseError ''connection lost'' ''Filter projects by user membership'')"
    using storage_failure_raises_DatabaseError
      [where flt = ?late
         and e = "DatabaseError ''connection lost'' ''Filter projects by user membership''",
       THEN conjunct1]
    by simp
  have b: "findUserGroupMembershipsInProject ?all demo_db [''alice''] ''p1''
     = Inl (DatabaseError ''timeout'' ''Find user group members in project'')"
    using storage_failure_raises_DatabaseError
      [where flt = ?all
         and e = "DatabaseError ''timeout'' ''Find user group members in project''",
       THEN conjunct2, THEN conjunct1]
    by simp
  have c: "findGroupMembersNotInProject ?late demo_db ''g1'' ''p2'' None
     = Inl (DatabaseError ''connection lost'' ''Find group members not in project'')"
    using storage_failure_raises_DatabaseError
      [where flt = ?late
         and e = "DatabaseError ''connection lost'' ''Find group members not in project''",
       THEN conjunct2, THEN conjunct2, THEN conjunct1]
    by simp
  have d: "deletePendingUserGroupMembershipsByUserIds ?late (\<lambda>n. n) demo_db [''u1''] None
     = Inl (DatabaseError ''connection lost''
              ''Delete pending user group memberships by user ids'')"
    using storage_failure_raises_DatabaseError
      [where flt = ?late
         and e = "DatabaseError ''connection lost''
                    ''Delete pending user group memberships by user ids''",
       THEN conjunct2, THEN conjunct2, THEN conjunct2]
    by simp
  from a b c d show ?thesis by (intro conjI)
qed

end
